theory Spec2Isabelle
  imports Complex_Main
begin

section \<open>JavaScript helpers used by the application\<close>

text \<open>
  Strings are lists of 8-bit characters, read as code units. The white space that
  \<open>String.prototype.trim\<close> and the string-to-number conversion strip is, within that
  range, TAB, LF, VT, FF, CR, SPACE and NBSP.
\<close>

definition is_ws :: "char \<Rightarrow> bool" where
  "is_ws c = (of_char c \<in> {9, 10, 11, 12, 13, 32, 160 :: nat})"

definition trimStart :: "string \<Rightarrow> string" where
  "trimStart s = dropWhile is_ws s"

definition trim :: "string \<Rightarrow> string" where
  "trim s = rev (dropWhile is_ws (rev (dropWhile is_ws s)))"

text \<open>\<open>value || null\<close> on a string: the empty string is falsy.\<close>

definition or_null :: "string \<Rightarrow> string option" where
  "or_null s = (if s = [] then None else Some s)"

text \<open>\<open>Number.prototype.toString\<close> on a non-negative integer such as \<open>Date.now()\<close>.\<close>

definition digit_char :: "nat \<Rightarrow> char" where
  "digit_char d = ''0123456789'' ! d"

fun toString :: "nat \<Rightarrow> string" where
  "toString n = (if n < 10 then [digit_char n] else toString (n div 10) @ [digit_char (n mod 10)])"

declare toString.simps [simp del]

text \<open>\<open>Array.prototype.findIndex\<close>: the first index that satisfies the predicate, or -1.\<close>

fun findIndex :: "('a \<Rightarrow> bool) \<Rightarrow> 'a list \<Rightarrow> int" where
  "findIndex P [] = -1"
| "findIndex P (x # xs) =
     (if P x then 0 else (let r = findIndex P xs in if r < 0 then -1 else r + 1))"

text \<open>
  \<open>Array.prototype.splice(start, n, ...)\<close> and \<open>slice(0, end)\<close> count a negative
  position from the end of the array and clamp it into the array.
\<close>

definition relative_index :: "int \<Rightarrow> nat \<Rightarrow> nat" where
  "relative_index i len = (if i < 0 then nat (max (int len + i) 0) else min (nat i) len)"

definition splice_remove1 :: "'a list \<Rightarrow> int \<Rightarrow> 'a option \<times> 'a list" where
  "splice_remove1 xs i =
     (let k = relative_index i (length xs)
      in if k < length xs then (Some (xs ! k), take k xs @ drop (Suc k) xs) else (None, xs))"

definition splice_insert :: "'a list \<Rightarrow> int \<Rightarrow> 'a \<Rightarrow> 'a list" where
  "splice_insert xs i x = (let k = relative_index i (length xs) in take k xs @ [x] @ drop k xs)"

definition slice0 :: "'a list \<Rightarrow> int \<Rightarrow> 'a list" where
  "slice0 xs e = take (relative_index e (length xs)) xs"

text \<open>
  \<open>const t = xs.find(P); if (t) { mutate t }\<close>: the first element that satisfies
  \<open>P\<close> is changed in place, the others are left alone.
\<close>

fun update_first :: "('a \<Rightarrow> bool) \<Rightarrow> ('a \<Rightarrow> 'a) \<Rightarrow> 'a list \<Rightarrow> 'a list" where
  "update_first P f [] = []"
| "update_first P f (x # xs) = (if P x then f x # xs else x # update_first P f xs)"

section \<open>Data model\<close>

text \<open>
  A task object as \<open>addTask\<close> builds it. \<open>createdAt\<close> is \<open>Date.now()\<close> in
  milliseconds; the optional fields are \<open>null\<close> when absent.
\<close>

record task =
  task_id :: string
  task_text :: string
  completed :: bool
  createdAt :: nat
  dueDate :: "string option"
  dueTime :: "string option"
  location :: "string option"

text \<open>
  One day of the contribution window. The source keys a day by \<open>Date.toDateString()\<close>;
  that string determines the calendar day and is only ever compared for equality, so a
  day is modelled by its day number, and \<open>date.setDate(date.getDate() - i)\<close> is
  subtraction of \<open>i\<close> days. The source's field \<open>tasks\<close> is \<open>day_tasks\<close> here.
  The three counters start at zero, go up by one, and go down by one only under a
  \<open>> 0\<close> guard: they are natural numbers.
\<close>

record contribution =
  date :: int
  day_tasks :: nat
  pomodoros :: nat
  totalActivity :: nat

text \<open>
  The numbers of the focus timer. \<open>parseInt\<close> may give \<open>NaN\<close>, which then flows
  through the arithmetic; the finite values are kept exact.
\<close>

datatype jsnumber = NaN | Fin rat | PosInfinity | NegInfinity

record statistics =
  tasksCompletedToday :: nat
  totalFocusTime :: jsnumber
  streak :: nat
  lastStatsDate :: int
  contributionData :: "contribution list"

text \<open>
  The fields of \<open>TodoApp\<close> that the task store, the history, the statistics and the
  focus timer read or write. \<open>_activeCount\<close> and \<open>_completedCount\<close> lose their
  underscore. \<open>timerInterval\<close> is whether an interval handle is held: the model has
  one countdown interval, the one the handle names. \<open>currentTask\<close> holds the task
  object picked at the start of the session. The counters of finished sessions only go
  up. DOM elements, the filter, the recent locations, the notified ids, the drag state,
  the live clock, the celebration and the keyboard selection are left out, and so are
  the writes to \<open>localStorage\<close>, which never change a field.
\<close>

record app =
  tasks :: "task list"
  activeCount :: int
  completedCount :: int
  history :: "task list list"
  historyIndex :: int
  stats :: statistics
  focusModeActive :: bool
  timerInterval :: bool
  timerDuration :: jsnumber
  timeRemaining :: jsnumber
  timerPaused :: bool
  currentTask :: "task option"
  isBreakTime :: bool
  pomodoroCount :: nat
  pomodorosToday :: nat

definition maxHistorySize :: int where
  "maxHistorySize = 50"

datatype js_exception = TypeError | SyntaxError

text \<open>
  What an operation reports instead of a new state: the two toasts of the history, or an
  exception together with the state the application is left in when it is thrown.
\<close>

datatype error = NothingToUndo | NothingToRedo | Thrown js_exception app

section \<open>Undo and redo history\<close>

text \<open>
  \<open>saveState\<close>: \<open>JSON.parse(JSON.stringify(this.tasks))\<close> is a deep copy, which is
  the list itself for values.
\<close>

definition saveState :: "app \<Rightarrow> app" where
  "saveState s =
     (let state = tasks s;
          h1 = (if historyIndex s < int (length (history s)) - 1
                then slice0 (history s) (historyIndex s + 1) else history s);
          h2 = h1 @ [state]
      in if int (length h2) > maxHistorySize
         then s\<lparr>history := tl h2\<rparr>
         else s\<lparr>history := h2, historyIndex := historyIndex s + 1\<rparr>)"

text \<open>\<open>recalculateCounters\<close>: the loop over the task array, with both counters.\<close>

fun count_loop :: "task list \<Rightarrow> int \<times> int \<Rightarrow> int \<times> int" where
  "count_loop [] (a, c) = (a, c)"
| "count_loop (t # ts) (a, c) = (if completed t then count_loop ts (a, c + 1) else count_loop ts (a + 1, c))"

definition recalculateCounters :: "app \<Rightarrow> app" where
  "recalculateCounters s =
     (let (a, c) = count_loop (tasks s) (0, 0) in s\<lparr>activeCount := a, completedCount := c\<rparr>)"

text \<open>
  The common tail of \<open>undo\<close> and \<open>redo\<close>: the task list becomes a copy of
  \<open>this.history[this.historyIndex]\<close> and the counters are recalculated. Reading the
  array out of range gives \<open>undefined\<close>, and \<open>JSON.parse(JSON.stringify(undefined))\<close>
  throws a SyntaxError after the index was already moved.
\<close>

definition restore :: "app \<Rightarrow> error + app" where
  "restore s =
     (let i = historyIndex s
      in if 0 \<le> i \<and> i < int (length (history s))
         then Inr (recalculateCounters (s\<lparr>tasks := history s ! nat i\<rparr>))
         else Inl (Thrown SyntaxError s))"

definition undo :: "app \<Rightarrow> error + app" where
  "undo s =
     (if historyIndex s \<le> 0 then Inl NothingToUndo
      else restore (s\<lparr>historyIndex := historyIndex s - 1\<rparr>))"

definition redo :: "app \<Rightarrow> error + app" where
  "redo s =
     (if historyIndex s \<ge> int (length (history s)) - 1 then Inl NothingToRedo
      else restore (s\<lparr>historyIndex := historyIndex s + 1\<rparr>))"

section \<open>Statistics\<close>

text \<open>
  \<open>initContributionData\<close>: the loop \<open>for (i = daysToShow - 1; i >= 0; i--)\<close> pushes
  the day \<open>today - i\<close>; \<open>contributions_from today (Suc i)\<close> is the loop at \<open>i\<close>.
\<close>

fun contributions_from :: "int \<Rightarrow> nat \<Rightarrow> contribution list" where
  "contributions_from today 0 = []"
| "contributions_from today (Suc i) =
     \<lparr>date = today - int i, day_tasks = 0, pomodoros = 0, totalActivity = 0\<rparr>
       # contributions_from today i"

definition daysToShow :: nat where
  "daysToShow = 84"

definition initContributionData :: "int \<Rightarrow> contribution list" where
  "initContributionData today = contributions_from today daysToShow"

text \<open>
  \<open>updateContributionData\<close>: \<open>lastDay.date\<close> on an empty window is a property read of
  \<open>undefined\<close>, a TypeError.
\<close>

definition updateContributionData :: "int \<Rightarrow> statistics \<Rightarrow> js_exception + statistics" where
  "updateContributionData today st =
     (case contributionData st of
        [] \<Rightarrow> Inl TypeError
      | d # ds \<Rightarrow>
          if date (last (d # ds)) \<noteq> today
          then Inr (st\<lparr>contributionData :=
                 ds @ [\<lparr>date = today, day_tasks = 0, pomodoros = 0, totalActivity = 0\<rparr>]\<rparr>)
          else Inr st)"

definition checkDailyReset :: "int \<Rightarrow> statistics \<Rightarrow> js_exception + statistics" where
  "checkDailyReset today st =
     (if lastStatsDate st \<noteq> today
      then updateContributionData today (st\<lparr>tasksCompletedToday := 0, lastStatsDate := today\<rparr>)
      else Inr st)"

text \<open>
  \<open>updateStreak\<close>: the loop \<open>for (i = length - 1; i >= 0; i--)\<close> with its
  \<open>break\<close>; \<open>streak_loop cd (Suc i) n\<close> is the loop at index \<open>i\<close> with \<open>n\<close>
  days counted so far.
\<close>

fun streak_loop :: "contribution list \<Rightarrow> nat \<Rightarrow> nat \<Rightarrow> nat" where
  "streak_loop cd 0 n = n"
| "streak_loop cd (Suc i) n =
     (if totalActivity (cd ! i) > 0 then streak_loop cd i (n + 1) else n)"

definition updateStreak :: "statistics \<Rightarrow> statistics" where
  "updateStreak st =
     st\<lparr>streak := streak_loop (contributionData st) (length (contributionData st)) 0\<rparr>"

definition incrementTasksCompleted :: "int \<Rightarrow> statistics \<Rightarrow> statistics" where
  "incrementTasksCompleted today st =
     updateStreak (st\<lparr>tasksCompletedToday := tasksCompletedToday st + 1,
       contributionData := update_first (\<lambda>d. date d = today)
         (\<lambda>d. d\<lparr>day_tasks := day_tasks d + 1,
                 totalActivity := day_tasks d + 1 + pomodoros d\<rparr>)
         (contributionData st)\<rparr>)"

definition decrementTasksCompleted :: "int \<Rightarrow> statistics \<Rightarrow> statistics" where
  "decrementTasksCompleted today st =
     (if tasksCompletedToday st > 0
      then st\<lparr>tasksCompletedToday := tasksCompletedToday st - 1,
             contributionData := update_first (\<lambda>d. date d = today)
               (\<lambda>d. if day_tasks d > 0
                     then d\<lparr>day_tasks := day_tasks d - 1,
                            totalActivity := day_tasks d - 1 + pomodoros d\<rparr>
                     else d)
               (contributionData st)\<rparr>
      else st)"

definition incrementPomodoros :: "int \<Rightarrow> statistics \<Rightarrow> statistics" where
  "incrementPomodoros today st =
     st\<lparr>contributionData := update_first (\<lambda>d. date d = today)
        (\<lambda>d. d\<lparr>pomodoros := pomodoros d + 1,
                totalActivity := day_tasks d + (pomodoros d + 1)\<rparr>)
        (contributionData st)\<rparr>"

text \<open>Addition of JavaScript numbers, for \<open>totalFocusTime += minutes\<close>.\<close>

fun js_add :: "jsnumber \<Rightarrow> jsnumber \<Rightarrow> jsnumber" where
  "js_add NaN y = NaN"
| "js_add x NaN = NaN"
| "js_add (Fin a) (Fin b) = Fin (a + b)"
| "js_add (Fin a) y = y"
| "js_add x (Fin b) = x"
| "js_add PosInfinity NegInfinity = NaN"
| "js_add NegInfinity PosInfinity = NaN"
| "js_add PosInfinity PosInfinity = PosInfinity"
| "js_add NegInfinity NegInfinity = NegInfinity"

definition addFocusTime :: "jsnumber \<Rightarrow> statistics \<Rightarrow> statistics" where
  "addFocusTime minutes st = st\<lparr>totalFocusTime := js_add (totalFocusTime st) minutes\<rparr>"

section \<open>Task store\<close>

text \<open>
  \<open>addTask\<close>: \<open>now\<close> and \<open>now'\<close> are the two readings of \<open>Date.now()\<close>, for the
  id and for \<open>createdAt\<close>; the other arguments are the values of the four input fields.
  An empty trimmed text returns before anything is saved.
\<close>

definition addTask :: "nat \<Rightarrow> nat \<Rightarrow> string \<Rightarrow> string \<Rightarrow> string \<Rightarrow> string \<Rightarrow> app \<Rightarrow> app" where
  "addTask now now' textInput dueDateInput dueTimeInput locationInput s =
     (let txt = trim textInput
      in if txt = [] then s
         else
           (let s1 = saveState s;
                t = \<lparr>task_id = toString now, task_text = txt, completed = False,
                     createdAt = now', dueDate = or_null dueDateInput,
                     dueTime = or_null dueTimeInput, location = or_null (trim locationInput)\<rparr>
            in s1\<lparr>tasks := t # tasks s1, activeCount := activeCount s1 + 1\<rparr>))"

definition deleteTask :: "string \<Rightarrow> app \<Rightarrow> app" where
  "deleteTask i s =
     (let s1 = saveState s;
          s2 = (case find (\<lambda>t. task_id t = i) (tasks s1) of
                  Some t \<Rightarrow>
                    if completed t then s1\<lparr>completedCount := completedCount s1 - 1\<rparr>
                    else s1\<lparr>activeCount := activeCount s1 - 1\<rparr>
                | None \<Rightarrow> s1)
      in s2\<lparr>tasks := filter (\<lambda>t. task_id t \<noteq> i) (tasks s2)\<rparr>)"

text \<open>
  \<open>toggleTask\<close>: \<open>today\<close> is the day \<open>new Date()\<close> gives inside the statistics
  functions.
\<close>

definition toggleTask :: "int \<Rightarrow> string \<Rightarrow> app \<Rightarrow> app" where
  "toggleTask today i s =
     (let s1 = saveState s
      in case find (\<lambda>t. task_id t = i) (tasks s1) of
           None \<Rightarrow> s1
         | Some t \<Rightarrow>
             (let wasCompleted = completed t;
                  nowCompleted = \<not> wasCompleted;
                  s2 = s1\<lparr>tasks := update_first (\<lambda>t. task_id t = i)
                              (\<lambda>t. t\<lparr>completed := nowCompleted\<rparr>) (tasks s1)\<rparr>
              in if \<not> wasCompleted \<and> nowCompleted
                 then s2\<lparr>activeCount := activeCount s2 - 1,
                         completedCount := completedCount s2 + 1,
                         stats := incrementTasksCompleted today (stats s2)\<rparr>
                 else if wasCompleted \<and> \<not> nowCompleted
                 then s2\<lparr>activeCount := activeCount s2 + 1,
                         completedCount := completedCount s2 - 1,
                         stats := decrementTasksCompleted today (stats s2)\<rparr>
                 else s2))"

text \<open>
  The two \<open>forEach\<close> loops of \<open>toggleAllTasks\<close>, threading the statistics through the
  calls they make for every task they change.
\<close>

fun uncomplete_each :: "int \<Rightarrow> task list \<Rightarrow> statistics \<Rightarrow> task list \<times> statistics" where
  "uncomplete_each today [] st = ([], st)"
| "uncomplete_each today (t # ts) st =
     (if completed t
      then (let (ts', st') = uncomplete_each today ts (decrementTasksCompleted today st)
            in (t\<lparr>completed := False\<rparr> # ts', st'))
      else (let (ts', st') = uncomplete_each today ts st in (t # ts', st')))"

fun complete_each :: "int \<Rightarrow> task list \<Rightarrow> statistics \<Rightarrow> task list \<times> statistics" where
  "complete_each today [] st = ([], st)"
| "complete_each today (t # ts) st =
     (if \<not> completed t
      then (let (ts', st') = complete_each today ts (incrementTasksCompleted today st)
            in (t\<lparr>completed := True\<rparr> # ts', st'))
      else (let (ts', st') = complete_each today ts st in (t # ts', st')))"

definition toggleAllTasks :: "int \<Rightarrow> app \<Rightarrow> app" where
  "toggleAllTasks today s =
     (let s1 = saveState s;
          allCompleted = (completedCount s1 = int (length (tasks s1)))
      in if allCompleted
         then (let (ts, st) = uncomplete_each today (tasks s1) (stats s1)
               in s1\<lparr>tasks := ts, stats := st,
                     activeCount := int (length ts), completedCount := 0\<rparr>)
         else (let (ts, st) = complete_each today (tasks s1) (stats s1)
               in s1\<lparr>tasks := ts, stats := st,
                     activeCount := 0, completedCount := int (length ts)\<rparr>))"

definition clearCompletedTasks :: "app \<Rightarrow> app" where
  "clearCompletedTasks s =
     (let s1 = saveState s
      in s1\<lparr>tasks := filter (\<lambda>t. \<not> completed t) (tasks s1), completedCount := 0\<rparr>)"

definition saveEdit :: "string \<Rightarrow> string \<Rightarrow> string \<Rightarrow> string \<Rightarrow> string \<Rightarrow> app \<Rightarrow> app" where
  "saveEdit i newText newDueDate newDueTime newLocation s =
     (let trimmedText = trim newText
      in if trimmedText = [] then deleteTask i s
         else
           (let s1 = saveState s
            in s1\<lparr>tasks := update_first (\<lambda>t. task_id t = i)
                 (\<lambda>t. t\<lparr>task_text := trimmedText, dueDate := or_null newDueDate,
                         dueTime := or_null newDueTime,
                         location := or_null (trim newLocation)\<rparr>)
                 (tasks s1)\<rparr>))"

text \<open>
  \<open>handleDrop\<close>, for a drop on a task item other than the dragged one: the arguments
  are the \<open>data-id\<close> of the dragged element and of the drop target. Both indices are
  looked up before the array is changed. On an empty array the first \<open>splice\<close> removes
  nothing, the source then stores \<open>undefined\<close> in the array and rendering it throws;
  that state has no counterpart in the typed list, so the exception carries the state
  after \<open>saveState\<close>.
\<close>

definition handleDrop :: "string \<Rightarrow> string \<Rightarrow> app \<Rightarrow> error + app" where
  "handleDrop draggedId targetId s =
     (let s1 = saveState s;
          draggedIndex = findIndex (\<lambda>t. task_id t = draggedId) (tasks s1);
          targetIndex = findIndex (\<lambda>t. task_id t = targetId) (tasks s1)
      in case splice_remove1 (tasks s1) draggedIndex of
           (None, rest) \<Rightarrow> Inl (Thrown TypeError s1)
         | (Some removed, rest) \<Rightarrow> Inr (s1\<lparr>tasks := splice_insert rest targetIndex removed\<rparr>))"

section \<open>Numbers read from the prompt\<close>

text \<open>
  The answer of \<open>prompt\<close> is a string. \<open>isNaN(minutes)\<close> and \<open>minutes <= 0\<close>
  convert it with the string-to-number conversion, \<open>parseInt(minutes)\<close> reads an
  integer prefix. Both results are doubles: a magnitude of at most \<open>2^-1075\<close> rounds to
  zero and one of at least \<open>2^1024 - 2^970\<close> to an infinity; the rounding of the
  mantissa in between is not modelled.
\<close>

definition to_double :: "rat \<Rightarrow> jsnumber" where
  "to_double r =
     (if \<bar>r\<bar> \<le> 1 / 2 ^ 1075 then Fin 0
      else if \<bar>r\<bar> \<ge> 2 ^ 1024 - 2 ^ 970 then (if r < 0 then NegInfinity else PosInfinity)
      else Fin r)"

fun js_neg :: "jsnumber \<Rightarrow> jsnumber" where
  "js_neg NaN = NaN"
| "js_neg (Fin r) = Fin (- r)"
| "js_neg PosInfinity = NegInfinity"
| "js_neg NegInfinity = PosInfinity"

definition digit_of :: "char \<Rightarrow> nat option" where
  "digit_of c =
     (let n = (of_char c :: nat)
      in if 48 \<le> n \<and> n \<le> 57 then Some (n - 48)
         else if 97 \<le> n \<and> n \<le> 122 then Some (n - 87)
         else if 65 \<le> n \<and> n \<le> 90 then Some (n - 55)
         else None)"

definition is_radix_digit :: "nat \<Rightarrow> char \<Rightarrow> bool" where
  "is_radix_digit radix c = (case digit_of c of Some v \<Rightarrow> v < radix | None \<Rightarrow> False)"

definition radix_value :: "nat \<Rightarrow> string \<Rightarrow> nat" where
  "radix_value radix ds =
     foldl (\<lambda>a c. radix * a + (case digit_of c of Some v \<Rightarrow> v | None \<Rightarrow> 0)) 0 ds"

definition pow10 :: "int \<Rightarrow> rat" where
  "pow10 e = (if e \<ge> 0 then 10 ^ nat e else 1 / 10 ^ nat (- e))"

text \<open>The literals \<open>0x..\<close>, \<open>0o..\<close> and \<open>0b..\<close>, which take no sign.\<close>

definition prefix_radix :: "char \<Rightarrow> nat option" where
  "prefix_radix c =
     (if c = CHR ''x'' \<or> c = CHR ''X'' then Some 16
      else if c = CHR ''o'' \<or> c = CHR ''O'' then Some 8
      else if c = CHR ''b'' \<or> c = CHR ''B'' then Some 2
      else None)"

definition nondecimal :: "string \<Rightarrow> jsnumber option" where
  "nondecimal t =
     (case t of
        c0 # c1 # ds \<Rightarrow>
          (case prefix_radix c1 of
             Some radix \<Rightarrow>
               if c0 = CHR ''0''
               then (if ds \<noteq> [] \<and> list_all (is_radix_digit radix) ds
                     then Some (to_double (of_nat (radix_value radix ds))) else Some NaN)
               else None
           | None \<Rightarrow> None)
      | _ \<Rightarrow> None)"

text \<open>The exponent part after the digits: nothing, or \<open>e\<close> with an optional sign and digits.\<close>

definition exponent_part :: "string \<Rightarrow> int option" where
  "exponent_part r =
     (case r of
        [] \<Rightarrow> Some 0
      | c # r' \<Rightarrow>
          if c = CHR ''e'' \<or> c = CHR ''E''
          then (let (neg, ds) =
                      (case r' of
                         [] \<Rightarrow> (False, [])
                       | sg # ds \<Rightarrow>
                           if sg = CHR ''-'' then (True, ds)
                           else if sg = CHR ''+'' then (False, ds) else (False, r'))
                in if ds \<noteq> [] \<and> list_all (is_radix_digit 10) ds
                   then Some (if neg then - int (radix_value 10 ds) else int (radix_value 10 ds))
                   else None)
          else None)"

definition unsigned_decimal :: "string \<Rightarrow> jsnumber" where
  "unsigned_decimal t =
     (if t = ''Infinity'' then PosInfinity
      else
        (let ip = takeWhile (is_radix_digit 10) t;
             r1 = dropWhile (is_radix_digit 10) t;
             (fp, r2) =
               (case r1 of
                  [] \<Rightarrow> ([], [])
                | c # r \<Rightarrow>
                    if c = CHR ''.''
                    then (takeWhile (is_radix_digit 10) r, dropWhile (is_radix_digit 10) r)
                    else ([], r1))
         in if ip = [] \<and> fp = [] then NaN
            else (case exponent_part r2 of
                    None \<Rightarrow> NaN
                  | Some e \<Rightarrow>
                      to_double (of_nat (radix_value 10 (ip @ fp)) * pow10 (e - int (length fp))))))"

definition toNumber :: "string \<Rightarrow> jsnumber" where
  "toNumber s =
     (let t = trim s
      in if t = [] then Fin 0
         else (case nondecimal t of
                 Some v \<Rightarrow> v
               | None \<Rightarrow>
                   if hd t = CHR ''-'' then js_neg (unsigned_decimal (tl t))
                   else if hd t = CHR ''+'' then unsigned_decimal (tl t)
                   else unsigned_decimal t))"

definition parseInt :: "string \<Rightarrow> jsnumber" where
  "parseInt s =
     (let t = trimStart s;
          (neg, t1) =
            (case t of
               [] \<Rightarrow> (False, [])
             | c # r \<Rightarrow>
                 if c = CHR ''-'' then (True, r) else if c = CHR ''+'' then (False, r) else (False, t));
          (radix, t2) =
            (case t1 of
               c0 # c1 # r \<Rightarrow>
                 if c0 = CHR ''0'' \<and> (c1 = CHR ''x'' \<or> c1 = CHR ''X'') then (16, r) else (10, t1)
             | _ \<Rightarrow> (10, t1));
          z = takeWhile (is_radix_digit radix) t2
      in if z = [] then NaN
         else (let v = to_double (of_nat (radix_value radix z)) in if neg then js_neg v else v))"

fun isNaN :: "jsnumber \<Rightarrow> bool" where
  "isNaN NaN = True"
| "isNaN x = False"

text \<open>\<open>x <= 0\<close>, \<open>x * 60\<close>, \<open>x / 60\<close>, \<open>x--\<close> and \<open>Math.round(x)\<close>.\<close>

fun js_le0 :: "jsnumber \<Rightarrow> bool" where
  "js_le0 NaN = False"
| "js_le0 (Fin r) = (r \<le> 0)"
| "js_le0 PosInfinity = False"
| "js_le0 NegInfinity = True"

fun js_times60 :: "jsnumber \<Rightarrow> jsnumber" where
  "js_times60 (Fin r) = Fin (r * 60)"
| "js_times60 x = x"

fun js_div60 :: "jsnumber \<Rightarrow> jsnumber" where
  "js_div60 (Fin r) = Fin (r / 60)"
| "js_div60 x = x"

fun js_decrement :: "jsnumber \<Rightarrow> jsnumber" where
  "js_decrement (Fin r) = Fin (r - 1)"
| "js_decrement x = x"

fun js_round :: "jsnumber \<Rightarrow> jsnumber" where
  "js_round (Fin r) = Fin (of_int \<lfloor>r + 1 / 2\<rfloor>)"
| "js_round x = x"

section \<open>Focus timer\<close>

text \<open>
  \<open>startCountdown\<close> stores the handle of a new interval. The source does not clear an
  interval that is already held, which would go on ticking beside the new one; the
  model follows the one interval that the handle names, so it describes a start from a
  state in which no interval is held.
\<close>

definition startCountdown :: "app \<Rightarrow> app" where
  "startCountdown s = s\<lparr>timerInterval := True\<rparr>"

text \<open>
  \<open>startFocusMode\<close>: \<open>answer\<close> is what \<open>prompt\<close> returns, \<open>None\<close> for \<open>null\<close>
  when the dialog is cancelled. Every rejection is a plain \<open>return\<close>.
\<close>

definition startFocusMode :: "string \<Rightarrow> string option \<Rightarrow> app \<Rightarrow> app" where
  "startFocusMode taskId answer s =
     (case find (\<lambda>t. task_id t = taskId) (tasks s) of
        None \<Rightarrow> s
      | Some t \<Rightarrow>
          (case answer of
             None \<Rightarrow> s
           | Some minutes \<Rightarrow>
               if minutes = [] \<or> isNaN (toNumber minutes) \<or> js_le0 (toNumber minutes) then s
               else startCountdown
                      (s\<lparr>currentTask := Some t,
                         timerDuration := js_times60 (parseInt minutes),
                         timeRemaining := js_times60 (parseInt minutes),
                         timerPaused := False,
                         focusModeActive := True\<rparr>)))"

definition pauseFocusTimer :: "app \<Rightarrow> app" where
  "pauseFocusTimer s = s\<lparr>timerPaused := True\<rparr>"

definition resumeFocusTimer :: "app \<Rightarrow> app" where
  "resumeFocusTimer s = s\<lparr>timerPaused := False\<rparr>"

definition cleanupFocusMode :: "app \<Rightarrow> app" where
  "cleanupFocusMode s =
     s\<lparr>timerInterval := False, focusModeActive := False, timerPaused := False,
       timeRemaining := Fin 0, timerDuration := Fin 0, currentTask := None,
       isBreakTime := False\<rparr>"

text \<open>\<open>stopFocusMode\<close>: the argument is the answer to the \<open>confirm\<close> dialog.\<close>

definition stopFocusMode :: "bool \<Rightarrow> app \<Rightarrow> app" where
  "stopFocusMode confirmed s = (if \<not> confirmed then s else cleanupFocusMode s)"

definition startBreak :: "int \<Rightarrow> app \<Rightarrow> app" where
  "startBreak minutes s =
     startCountdown
       (s\<lparr>isBreakTime := True,
          timerDuration := Fin (of_int minutes * 60),
          timeRemaining := Fin (of_int minutes * 60),
          timerPaused := False,
          focusModeActive := True\<rparr>)"

text \<open>
  What the end of a countdown shows to the user: the \<open>confirm\<close> dialog that offers a
  break of the given number of minutes, or the \<open>alert\<close> that the break is over.
\<close>

datatype report = OfferBreak int | BreakOver

text \<open>
  \<open>timerComplete\<close>: \<open>today\<close> is the current day, \<open>granted\<close> is
  \<open>Notification.permission === 'granted'\<close> and \<open>takeBreak\<close> the answer to the
  \<open>confirm\<close> dialog. The notification of a finished work session reads
  \<open>this.currentTask.text\<close> after \<open>cleanupFocusMode\<close>; a property read of \<open>null\<close> is a
  TypeError. The completion sound is left out.
\<close>

definition timerComplete :: "int \<Rightarrow> bool \<Rightarrow> bool \<Rightarrow> app \<Rightarrow> error + report \<times> app" where
  "timerComplete today granted takeBreak s =
     (if \<not> isBreakTime s
      then
        (let s1 = s\<lparr>pomodoroCount := pomodoroCount s + 1, pomodorosToday := pomodorosToday s + 1\<rparr>;
             s2 = s1\<lparr>stats := incrementPomodoros today (stats s1)\<rparr>;
             sessionMinutes = js_round (js_div60 (timerDuration s2));
             s3 = s2\<lparr>stats := addFocusTime sessionMinutes (stats s2)\<rparr>;
             isLongBreak = (pomodoroCount s3 mod 4 = 0);
             breakDuration = (if isLongBreak then 15 else 5);
             s4 = cleanupFocusMode s3
         in if granted \<and> currentTask s4 = None then Inl (Thrown TypeError s4)
            else if takeBreak then Inr (OfferBreak breakDuration, startBreak breakDuration s4)
            else Inr (OfferBreak breakDuration, s4))
      else Inr (BreakOver, cleanupFocusMode s))"

text \<open>
  The callback that \<open>startCountdown\<close> hands to \<open>setInterval\<close>, and a tick of the
  clock, which runs the callback only while the interval is held.
\<close>

definition countdown :: "int \<Rightarrow> bool \<Rightarrow> bool \<Rightarrow> app \<Rightarrow> error + report option \<times> app" where
  "countdown today granted takeBreak s =
     (if \<not> timerPaused s
      then (let s1 = s\<lparr>timeRemaining := js_decrement (timeRemaining s)\<rparr>
            in if js_le0 (timeRemaining s1)
               then (case timerComplete today granted takeBreak s1 of
                       Inl e \<Rightarrow> Inl e
                     | Inr (r, s2) \<Rightarrow> Inr (Some r, s2))
               else Inr (None, s1))
      else Inr (None, s))"

definition tick :: "int \<Rightarrow> bool \<Rightarrow> bool \<Rightarrow> app \<Rightarrow> error + report option \<times> app" where
  "tick today granted takeBreak s =
     (if timerInterval s then countdown today granted takeBreak s else Inr (None, s))"

section \<open>Start of the application\<close>

text \<open>
  What \<open>localStorage.getItem\<close> yields for a key: nothing, a string that
  \<open>JSON.parse\<close> rejects, or a parsed value. The statistics blob is one that
  \<open>saveStats\<close> wrote; the migration of the older \<open>weeklyData\<close> format is left out.
\<close>

datatype 'a stored = Absent | Corrupt | Parsed 'a

definition constructor_fields :: "int \<Rightarrow> app" where
  "constructor_fields today =
     \<lparr>tasks = [], activeCount = 0, completedCount = 0, history = [], historyIndex = -1,
      stats = \<lparr>tasksCompletedToday = 0, totalFocusTime = Fin 0, streak = 0,
               lastStatsDate = today, contributionData = initContributionData today\<rparr>,
      focusModeActive = False, timerInterval = False, timerDuration = Fin 0,
      timeRemaining = Fin 0, timerPaused = False, currentTask = None, isBreakTime = False,
      pomodoroCount = 0, pomodorosToday = 0\<rparr>"

definition loadFromStorage ::
  "int \<Rightarrow> task list stored \<Rightarrow> statistics stored \<Rightarrow> app \<Rightarrow> js_exception + app" where
  "loadFromStorage today savedTasks savedStats s =
     (let s1 = (case savedTasks of
                  Absent \<Rightarrow> s
                | Corrupt \<Rightarrow> s\<lparr>tasks := [], activeCount := 0, completedCount := 0\<rparr>
                | Parsed ts \<Rightarrow> recalculateCounters (s\<lparr>tasks := ts\<rparr>));
          s2 = (case savedStats of Parsed st \<Rightarrow> s1\<lparr>stats := st\<rparr> | _ \<Rightarrow> s1)
      in case checkDailyReset today (stats s2) of
           Inl e \<Rightarrow> Inl e
         | Inr st \<Rightarrow> Inr (s2\<lparr>stats := st\<rparr>))"

definition newTodoApp :: "int \<Rightarrow> task list stored \<Rightarrow> statistics stored \<Rightarrow> js_exception + app" where
  "newTodoApp today savedTasks savedStats =
     loadFromStorage today savedTasks savedStats (constructor_fields today)"

section \<open>Runs of the application\<close>

datatype action =
    AddTask nat nat string string string string
  | DeleteTask string
  | ToggleTask int string
  | ToggleAllTasks int
  | ClearCompletedTasks
  | SaveEdit string string string string string
  | Drop string string
  | Undo
  | Redo
  | StartFocusMode string "string option"
  | Tick int bool bool
  | PauseFocusTimer
  | ResumeFocusTimer
  | StopFocusMode bool

text \<open>The state the application is left in by a handler that reports or throws.\<close>

fun left_in :: "app \<Rightarrow> error + app \<Rightarrow> app" where
  "left_in s (Inr s') = s'"
| "left_in s (Inl (Thrown e s')) = s'"
| "left_in s (Inl NothingToUndo) = s"
| "left_in s (Inl NothingToRedo) = s"

fun perform :: "action \<Rightarrow> app \<Rightarrow> app" where
  "perform (AddTask now now' txt dd dt loc) s = addTask now now' txt dd dt loc s"
| "perform (DeleteTask i) s = deleteTask i s"
| "perform (ToggleTask today i) s = toggleTask today i s"
| "perform (ToggleAllTasks today) s = toggleAllTasks today s"
| "perform ClearCompletedTasks s = clearCompletedTasks s"
| "perform (SaveEdit i txt dd dt loc) s = saveEdit i txt dd dt loc s"
| "perform (Drop draggedId targetId) s = left_in s (handleDrop draggedId targetId s)"
| "perform Undo s = left_in s (undo s)"
| "perform Redo s = left_in s (redo s)"
| "perform (StartFocusMode taskId answer) s = startFocusMode taskId answer s"
| "perform (Tick today granted takeBreak) s =
     left_in s (map_sum id snd (tick today granted takeBreak s))"
| "perform PauseFocusTimer s = pauseFocusTimer s"
| "perform ResumeFocusTimer s = resumeFocusTimer s"
| "perform (StopFocusMode confirmed) s = stopFocusMode confirmed s"

inductive reachable :: "app \<Rightarrow> bool" where
  start: "newTodoApp today savedTasks savedStats = Inr s \<Longrightarrow> reachable s"
| step: "reachable s \<Longrightarrow> reachable (perform a s)"

text \<open>A run of handlers, one after the other, and a number of ticks with what they show.\<close>

definition run :: "action list \<Rightarrow> app \<Rightarrow> app" where
  "run as s = foldl (\<lambda>s a. perform a s) s as"

fun ticks :: "nat \<Rightarrow> int \<Rightarrow> bool \<Rightarrow> bool \<Rightarrow> app \<Rightarrow> error + report list \<times> app" where
  "ticks 0 today granted takeBreak s = Inr ([], s)"
| "ticks (Suc n) today granted takeBreak s =
     (case tick today granted takeBreak s of
        Inl e \<Rightarrow> Inl e
      | Inr (r, s1) \<Rightarrow>
          (case ticks n today granted takeBreak s1 of
             Inl e \<Rightarrow> Inl e
           | Inr (rs, s2) \<Rightarrow> Inr ((case r of None \<Rightarrow> [] | Some x \<Rightarrow> [x]) @ rs, s2)))"

section \<open>Properties and example states\<close>

text \<open>The bounds of the history: empty with the index at -1, or the index inside it.\<close>

definition history_ok :: "app \<Rightarrow> bool" where
  "history_ok s =
     ((history s = [] \<and> historyIndex s = -1) \<or>
      (0 \<le> historyIndex s \<and> historyIndex s < int (length (history s)) \<and>
       int (length (history s)) \<le> maxHistorySize))"

text \<open>The cached counters against a scan of the list.\<close>

definition counters_ok :: "app \<Rightarrow> bool" where
  "counters_ok s =
     (activeCount s + completedCount s = int (length (tasks s)) \<and>
      completedCount s = int (length (filter completed (tasks s))))"

text \<open>Today's entry of the contribution window, when there is one, and its task counter.\<close>

definition todayData :: "int \<Rightarrow> statistics \<Rightarrow> contribution option" where
  "todayData today st = find (\<lambda>d. date d = today) (contributionData st)"

definition todayTasks :: "int \<Rightarrow> statistics \<Rightarrow> nat option" where
  "todayTasks today st = map_option day_tasks (todayData today st)"

text \<open>
  The application opened on day 0 with an empty storage, then three tasks added at
  different milliseconds, and the second of them deleted.
\<close>

definition fresh :: app where
  "fresh = constructor_fields 0"

definition one_task :: app where
  "one_task = addTask 1000 1000 ''first'' [] [] [] fresh"

definition two_tasks :: app where
  "two_tasks = addTask 2000 2000 ''second'' [] [] [] one_task"

definition three_tasks :: app where
  "three_tasks = addTask 3000 3000 ''third'' [] [] [] two_tasks"

definition after_delete :: app where
  "after_delete = deleteTask ''2000'' three_tasks"

text \<open>The application opened on day 0 with an empty storage and one task added.\<close>

definition buy_milk :: app where
  "buy_milk = addTask 1000 1000 ''Buy milk'' [] [] [] fresh"

text \<open>The state the application is left in by an undo after that delete.\<close>

definition after_undo :: app where
  "after_undo = left_in after_delete (undo after_delete)"

text \<open>Two tasks added within the same millisecond, and a delete of their common id.\<close>

definition same_millisecond :: app where
  "same_millisecond = deleteTask ''1000'' (addTask 1000 1000 ''second'' [] [] [] one_task)"

text \<open>Fifty clicks on the toggle-all box while the list is empty.\<close>

definition full_history :: app where
  "full_history = run (replicate 50 (ToggleAllTasks 0)) fresh"

text \<open>A window of 84 days whose last six days have the activity 0, 1, 1, 1, 0, 1.\<close>

definition activity_window :: "nat list \<Rightarrow> contribution list" where
  "activity_window as =
     map (\<lambda>(i, a). \<lparr>date = int i, day_tasks = a, pomodoros = 0, totalActivity = a\<rparr>)
       (zip [0..<length as] as)"

definition six_days :: statistics where
  "six_days =
     \<lparr>tasksCompletedToday = 1, totalFocusTime = Fin 0, streak = 0, lastStatsDate = 83,
      contributionData = activity_window (replicate 78 0 @ [0, 1, 1, 1, 0, 1])\<rparr>"

text \<open>A focus session of 25 minutes on the first task.\<close>

definition session_25 :: app where
  "session_25 = startFocusMode ''1000'' (Some ''25'') one_task"

section \<open>Frame and shape lemmas\<close>

lemma saveState_frame [simp]:
  "tasks (saveState s) = tasks s"
  "activeCount (saveState s) = activeCount s"
  "completedCount (saveState s) = completedCount s"
  "stats (saveState s) = stats s"
  by (simp_all add: saveState_def Let_def)

lemma saveState_timer [simp]:
  "focusModeActive (saveState s) = focusModeActive s"
  "timerInterval (saveState s) = timerInterval s"
  "timerDuration (saveState s) = timerDuration s"
  "timeRemaining (saveState s) = timeRemaining s"
  "timerPaused (saveState s) = timerPaused s"
  "currentTask (saveState s) = currentTask s"
  "isBreakTime (saveState s) = isBreakTime s"
  "pomodoroCount (saveState s) = pomodoroCount s"
  "pomodorosToday (saveState s) = pomodorosToday s"
  by (simp_all add: saveState_def Let_def)

lemma slice0_take: "0 \<le> e \<Longrightarrow> slice0 xs e = take (nat e) xs"
  by (simp add: slice0_def relative_index_def min_def)

lemma find_None_filter:
  "find (\<lambda>t. task_id t = i) ts = None \<Longrightarrow> filter (\<lambda>t. task_id t \<noteq> i) ts = ts"
  by (induction ts) (auto split: if_splits)

lemma find_Some_P: "find P xs = Some x \<Longrightarrow> P x"
  by (induction xs) (auto split: if_splits)

lemma find_update_first:
  "find P xs = Some x \<Longrightarrow> P (f x) \<Longrightarrow> find P (update_first P f xs) = Some (f x)"
  by (induction xs) (auto split: if_splits)

lemma update_first_twice:
  "find P xs = Some x \<Longrightarrow> P (f x) \<Longrightarrow>
   update_first P g (update_first P f xs) = update_first P (\<lambda>y. g (f y)) xs"
  by (induction xs) (auto split: if_splits)

lemma update_first_same:
  "find P xs = Some x \<Longrightarrow> f x = x \<Longrightarrow> update_first P f xs = xs"
  by (induction xs) (auto split: if_splits)

lemma map_update_first_same:
  "find P xs = Some x \<Longrightarrow> h (f x) = h x \<Longrightarrow> map h (update_first P f xs) = map h xs"
  by (induction xs) (auto split: if_splits)

lemma length_update_first [simp]: "length (update_first P f ts) = length ts"
  by (induction ts) simp_all

lemma updateStreak_frame [simp]:
  "tasksCompletedToday (updateStreak st) = tasksCompletedToday st"
  "contributionData (updateStreak st) = contributionData st"
  "totalFocusTime (updateStreak st) = totalFocusTime st"
  "lastStatsDate (updateStreak st) = lastStatsDate st"
  by (simp_all add: updateStreak_def)

lemma deleteTask_absent:
  assumes "find (\<lambda>t. task_id t = i) (tasks s) = None"
  shows "deleteTask i s = saveState s"
  using assms by (simp add: deleteTask_def Let_def find_None_filter)

lemma toggleTask_absent:
  assumes "find (\<lambda>t. task_id t = i) (tasks s) = None"
  shows "toggleTask today i s = saveState s"
  using assms by (simp add: toggleTask_def Let_def)

lemma toggleTask_complete:
  assumes "find (\<lambda>t. task_id t = i) (tasks s) = Some t" and "\<not> completed t"
  shows "toggleTask today i s =
           (saveState s)\<lparr>tasks := update_first (\<lambda>t. task_id t = i)
                                   (\<lambda>t. t\<lparr>completed := True\<rparr>) (tasks s),
                          activeCount := activeCount s - 1,
                          completedCount := completedCount s + 1,
                          stats := incrementTasksCompleted today (stats s)\<rparr>"
  using assms by (simp add: toggleTask_def Let_def)

lemma toggleTask_uncomplete:
  assumes "find (\<lambda>t. task_id t = i) (tasks s) = Some t" and "completed t"
  shows "toggleTask today i s =
           (saveState s)\<lparr>tasks := update_first (\<lambda>t. task_id t = i)
                                   (\<lambda>t. t\<lparr>completed := False\<rparr>) (tasks s),
                          activeCount := activeCount s + 1,
                          completedCount := completedCount s - 1,
                          stats := decrementTasksCompleted today (stats s)\<rparr>"
  using assms by (simp add: toggleTask_def Let_def)

section \<open>Example states\<close>

lemma toString_examples:
  "toString 1000 = ''1000''" "toString 2000 = ''2000''" "toString 3000 = ''3000''"
  by (simp_all add: toString.simps digit_char_def)

lemma trim_examples:
  "trim ''first'' = ''first''" "trim ''second'' = ''second''" "trim ''third'' = ''third''"
  "trim [] = []"
  by (simp_all add: trim_def is_ws_def)

lemmas example_defs =
  after_delete_def three_tasks_def two_tasks_def one_task_def fresh_def constructor_fields_def
  addTask_def deleteTask_def saveState_def slice0_def relative_index_def maxHistorySize_def
  or_null_def Let_def toString_examples trim_examples

lemma newTodoApp_fresh: "newTodoApp 0 Absent Absent = Inr fresh"
  by (simp add: newTodoApp_def loadFromStorage_def checkDailyReset_def fresh_def
        constructor_fields_def)

lemma reachable_fresh: "reachable fresh"
  using newTodoApp_fresh by (rule reachable.start)

lemma reachable_run: "reachable s \<Longrightarrow> reachable (run as s)"
proof (induction as arbitrary: s)
  case Nil
  then show ?case by (simp add: run_def)
next
  case (Cons a as)
  from Cons.prems have "reachable (perform a s)" by (rule reachable.step)
  then have "reachable (run as (perform a s))" by (rule Cons.IH)
  then show ?case by (simp add: run_def)
qed

lemma after_delete_run:
  "after_delete =
     run [AddTask 1000 1000 ''first'' [] [] [] , AddTask 2000 2000 ''second'' [] [] [],
          AddTask 3000 3000 ''third'' [] [] [], DeleteTask ''2000''] fresh"
  by (simp add: run_def after_delete_def three_tasks_def two_tasks_def one_task_def)

lemma reachable_after_delete: "reachable after_delete"
  unfolding after_delete_run using reachable_fresh by (rule reachable_run)

lemma after_delete_history:
  "history after_delete = [tasks fresh, tasks one_task, tasks two_tasks, tasks three_tasks]"
  "historyIndex after_delete = 3"
  by (simp_all add: example_defs)

lemma after_undo_run:
  "after_undo =
     run [AddTask 1000 1000 ''first'' [] [] [] , AddTask 2000 2000 ''second'' [] [] [],
          AddTask 3000 3000 ''third'' [] [] [], DeleteTask ''2000'', Undo] fresh"
  by (simp add: run_def after_undo_def after_delete_def three_tasks_def two_tasks_def one_task_def)

lemma reachable_after_undo: "reachable after_undo"
  unfolding after_undo_run using reachable_fresh by (rule reachable_run)

lemma after_undo_shape:
  "history after_undo = history after_delete"
  "historyIndex after_undo = 2"
  "tasks after_undo = tasks two_tasks"
  by (simp_all add: after_undo_def undo_def restore_def recalculateCounters_def
        after_delete_history split: prod.splits)

lemma full_history_shape:
  "history full_history = replicate 50 [] \<and> historyIndex full_history = 49 \<and>
   tasks full_history = []"
  by (simp add: full_history_def run_def fresh_def constructor_fields_def toggleAllTasks_def
       saveState_def slice0_def relative_index_def maxHistorySize_def Let_def eval_nat_numeral)

lemma reachable_full_history: "reachable full_history"
  unfolding full_history_def using reachable_fresh by (rule reachable_run)

lemma one_task_find:
  "find (\<lambda>t. task_id t = ''1000'') (tasks one_task)
     = Some \<lparr>task_id = ''1000'', task_text = ''first'', completed = False, createdAt = 1000,
             dueDate = None, dueTime = None, location = None\<rparr>"
  by (simp add: example_defs)

lemma buy_milk_shape:
  "tasks buy_milk = [\<lparr>task_id = ''1000'', task_text = ''Buy milk'', completed = False,
       createdAt = 1000, dueDate = None, dueTime = None, location = None\<rparr>]"
  "activeCount buy_milk = 1" "completedCount buy_milk = 0"
  "stats buy_milk = stats fresh"
  by (simp_all add: buy_milk_def fresh_def constructor_fields_def addTask_def trim_def is_ws_def
        or_null_def toString_examples Let_def)

lemma find_contributions_from:
  "find (\<lambda>d. date d = today) (contributions_from today (Suc n))
     = Some \<lparr>date = today, day_tasks = 0, pomodoros = 0, totalActivity = 0\<rparr>"
  by (induction n) simp_all

lemma todayData_fresh:
  "todayData 0 (stats fresh) = Some \<lparr>date = 0, day_tasks = 0, pomodoros = 0, totalActivity = 0\<rparr>"
proof -
  have "daysToShow = Suc 83" by (simp add: daysToShow_def)
  then show ?thesis
    using find_contributions_from[of 0 83]
    by (simp add: todayData_def fresh_def constructor_fields_def initContributionData_def)
qed

lemmas toNumber_defs =
  toNumber_def trim_def nondecimal_def prefix_radix_def unsigned_decimal_def exponent_part_def
  pow10_def is_ws_def is_radix_digit_def digit_of_def radix_value_def to_double_def

lemma toNumber_examples:
  "toNumber ''-5'' = Fin (- 5)" "toNumber ''abc'' = NaN" "toNumber ''25'' = Fin 25"
  by (simp_all add: toNumber_defs)

lemma parseInt_25: "parseInt ''25'' = Fin 25"
  by (simp add: parseInt_def trimStart_def is_ws_def is_radix_digit_def digit_of_def
        radix_value_def to_double_def)

section \<open>The history stays within its bounds\<close>

lemma saveState_at_capacity:
  assumes "history_ok s" and "historyIndex s = maxHistorySize - 1"
  shows "history (saveState s) = tl (history s) @ [tasks s]"
    and "historyIndex (saveState s) = historyIndex s"
proof -
  from assms have len: "length (history s) = 50"
    by (auto simp: history_ok_def maxHistorySize_def)
  then have ne: "history s \<noteq> []" by auto
  from len assms(2) show "history (saveState s) = tl (history s) @ [tasks s]"
    using ne by (simp add: saveState_def Let_def maxHistorySize_def)
  from len assms(2) show "historyIndex (saveState s) = historyIndex s"
    by (simp add: saveState_def Let_def maxHistorySize_def)
qed

lemma saveState_below_capacity:
  assumes "history_ok s" and "historyIndex s \<noteq> maxHistorySize - 1"
  shows "history (saveState s) = take (nat (historyIndex s + 1)) (history s) @ [tasks s]"
    and "historyIndex (saveState s) = historyIndex s + 1"
proof -
  from assms have idx: "-1 \<le> historyIndex s" "historyIndex s < 49"
    "historyIndex s < int (length (history s))"
    by (auto simp: history_ok_def maxHistorySize_def)
  have h1: "(if historyIndex s < int (length (history s)) - 1
             then slice0 (history s) (historyIndex s + 1) else history s)
            = take (nat (historyIndex s + 1)) (history s)"
    using idx by (auto simp: slice0_take)
  have len: "length (take (nat (historyIndex s + 1)) (history s)) = nat (historyIndex s + 1)"
    using idx by simp
  show "history (saveState s) = take (nat (historyIndex s + 1)) (history s) @ [tasks s]"
    unfolding saveState_def Let_def h1 using idx len by (simp add: maxHistorySize_def)
  show "historyIndex (saveState s) = historyIndex s + 1"
    unfolding saveState_def Let_def h1 using idx len by (simp add: maxHistorySize_def)
qed

lemma saveState_ok:
  assumes "history_ok s"
  shows "history_ok (saveState s)"
    and "historyIndex (saveState s) = int (length (history (saveState s))) - 1"
proof -
  have "history_ok (saveState s) \<and>
        historyIndex (saveState s) = int (length (history (saveState s))) - 1"
  proof (cases "historyIndex s = maxHistorySize - 1")
    case True
    with assms have "length (history s) = 50"
      by (auto simp: history_ok_def maxHistorySize_def)
    with True show ?thesis
      using saveState_at_capacity[OF assms True]
      by (simp add: history_ok_def maxHistorySize_def)
  next
    case False
    with assms have "-1 \<le> historyIndex s" "historyIndex s < 49"
      "historyIndex s < int (length (history s))"
      by (auto simp: history_ok_def maxHistorySize_def)
    then show ?thesis
      using saveState_below_capacity[OF assms False]
      by (simp add: history_ok_def maxHistorySize_def)
  qed
  then show "history_ok (saveState s)"
    and "historyIndex (saveState s) = int (length (history (saveState s))) - 1"
    by simp_all
qed

lemma redo_saveState:
  assumes "history_ok s"
  shows "redo (saveState s) = Inl NothingToRedo"
  using saveState_ok(2)[OF assms] by (simp add: redo_def)

lemma history_ok_cong:
  "history s' = history s \<Longrightarrow> historyIndex s' = historyIndex s \<Longrightarrow> history_ok s' = history_ok s"
  by (simp add: history_ok_def)

lemma history_ok_left_in_undo: "history_ok s \<Longrightarrow> history_ok (left_in s (undo s))"
  by (auto simp: undo_def restore_def recalculateCounters_def history_ok_def Let_def
           split: prod.splits)

lemma history_ok_left_in_redo: "history_ok s \<Longrightarrow> history_ok (left_in s (redo s))"
  by (auto simp: redo_def restore_def recalculateCounters_def history_ok_def Let_def
           split: prod.splits)

lemma addTask_history:
  "history (addTask n n' a b c d s) = history (if trim a = [] then s else saveState s)"
  "historyIndex (addTask n n' a b c d s) = historyIndex (if trim a = [] then s else saveState s)"
  by (simp_all add: addTask_def Let_def)

lemma deleteTask_history:
  "history (deleteTask i s) = history (saveState s)"
  "historyIndex (deleteTask i s) = historyIndex (saveState s)"
  by (simp_all add: deleteTask_def Let_def split: option.splits)

lemma toggleTask_history:
  "history (toggleTask today i s) = history (saveState s)"
  "historyIndex (toggleTask today i s) = historyIndex (saveState s)"
  by (simp_all add: toggleTask_def Let_def split: option.splits)

lemma toggleAllTasks_history:
  "history (toggleAllTasks today s) = history (saveState s)"
  "historyIndex (toggleAllTasks today s) = historyIndex (saveState s)"
  by (simp_all add: toggleAllTasks_def Let_def split: prod.splits)

lemma clearCompletedTasks_history:
  "history (clearCompletedTasks s) = history (saveState s)"
  "historyIndex (clearCompletedTasks s) = historyIndex (saveState s)"
  by (simp_all add: clearCompletedTasks_def Let_def)

lemma saveEdit_history:
  "history (saveEdit i a b c d s) = history (saveState s)"
  "historyIndex (saveEdit i a b c d s) = historyIndex (saveState s)"
  by (simp_all add: saveEdit_def Let_def deleteTask_history)

lemma handleDrop_history:
  "history (left_in s (handleDrop x y s)) = history (saveState s)"
  "historyIndex (left_in s (handleDrop x y s)) = historyIndex (saveState s)"
  by (simp_all add: handleDrop_def Let_def split: prod.splits option.splits)

lemma startFocusMode_history:
  "history (startFocusMode i a s) = history s"
  "historyIndex (startFocusMode i a s) = historyIndex s"
  by (simp_all add: startFocusMode_def startCountdown_def split: option.splits)

lemma stopFocusMode_history:
  "history (stopFocusMode c s) = history s"
  "historyIndex (stopFocusMode c s) = historyIndex s"
  by (simp_all add: stopFocusMode_def cleanupFocusMode_def)

lemma tick_history:
  "history (left_in s (map_sum id snd (tick today g b s))) = history s"
  "historyIndex (left_in s (map_sum id snd (tick today g b s))) = historyIndex s"
  by (simp_all add: tick_def countdown_def timerComplete_def Let_def startBreak_def
        startCountdown_def cleanupFocusMode_def)

lemma history_ok_perform:
  assumes "history_ok s"
  shows "history_ok (perform a s)"
proof (cases a)
  case (AddTask n n' a b c d)
  then show ?thesis
    using assms saveState_ok(1)[OF assms] by (simp add: history_ok_cong[OF addTask_history])
next
  case (DeleteTask i)
  then show ?thesis
    using saveState_ok(1)[OF assms] by (simp add: history_ok_cong[OF deleteTask_history])
next
  case (ToggleTask today i)
  then show ?thesis
    using saveState_ok(1)[OF assms] by (simp add: history_ok_cong[OF toggleTask_history])
next
  case (ToggleAllTasks today)
  then show ?thesis
    using saveState_ok(1)[OF assms] by (simp add: history_ok_cong[OF toggleAllTasks_history])
next
  case ClearCompletedTasks
  then show ?thesis
    using saveState_ok(1)[OF assms] by (simp add: history_ok_cong[OF clearCompletedTasks_history])
next
  case (SaveEdit i a b c d)
  then show ?thesis
    using saveState_ok(1)[OF assms] by (simp add: history_ok_cong[OF saveEdit_history])
next
  case (Drop x y)
  then show ?thesis
    using saveState_ok(1)[OF assms] by (simp add: history_ok_cong[OF handleDrop_history])
next
  case Undo
  then show ?thesis using assms by (simp add: history_ok_left_in_undo)
next
  case Redo
  then show ?thesis using assms by (simp add: history_ok_left_in_redo)
next
  case (StartFocusMode i a)
  then show ?thesis using assms by (simp add: history_ok_cong[OF startFocusMode_history])
next
  case (Tick today g b)
  then show ?thesis using assms by (simp add: history_ok_cong[OF tick_history])
next
  case PauseFocusTimer
  then show ?thesis using assms by (simp add: history_ok_def pauseFocusTimer_def)
next
  case ResumeFocusTimer
  then show ?thesis using assms by (simp add: history_ok_def resumeFocusTimer_def)
next
  case (StopFocusMode c)
  then show ?thesis using assms by (simp add: history_ok_cong[OF stopFocusMode_history])
qed

lemma history_ok_start: "newTodoApp today st ss = Inr s \<Longrightarrow> history_ok s"
  by (auto simp: newTodoApp_def loadFromStorage_def constructor_fields_def history_ok_def
        recalculateCounters_def Let_def split: stored.splits sum.splits prod.splits)

lemma reachable_history_ok: "reachable s \<Longrightarrow> history_ok s"
  by (induction rule: reachable.induct) (simp_all add: history_ok_start history_ok_perform)

text \<open>
  C4. In every reachable state the history index is at least -1 and below the length of
  the history, which holds at most 50 snapshots, and the index is -1 only when the
  history is empty. A \<open>saveState\<close> while the index is not at the last entry keeps the
  entries up to the index, appends the snapshot and moves the index onto it, so that
  \<open>redo\<close> has nothing to redo. A \<open>saveState\<close> on a full history with the index at
  its last entry drops the oldest entry, appends the snapshot and leaves the index
  where it is.
\<close>

theorem history_within_bounds:
  assumes "reachable s"
  shows "- 1 \<le> historyIndex s \<and> historyIndex s < int (length (history s)) \<and>
         length (history s) \<le> 50 \<and>
         (historyIndex s = - 1 \<longrightarrow> history s = []) \<and>
         (historyIndex s < int (length (history s)) - 1 \<longrightarrow>
            history (saveState s) = take (nat (historyIndex s + 1)) (history s) @ [tasks s] \<and>
            historyIndex (saveState s) = historyIndex s + 1 \<and>
            redo (saveState s) = Inl NothingToRedo) \<and>
         (historyIndex s = int (length (history s)) - 1 \<and> length (history s) = 50 \<longrightarrow>
            history (saveState s) = tl (history s) @ [tasks s] \<and>
            historyIndex (saveState s) = historyIndex s)"
proof -
  have ok: "history_ok s" using assms by (rule reachable_history_ok)
  have bounds: "- 1 \<le> historyIndex s \<and> historyIndex s < int (length (history s)) \<and>
      length (history s) \<le> 50 \<and> (historyIndex s = - 1 \<longrightarrow> history s = [])"
    using ok by (auto simp: history_ok_def maxHistorySize_def)
  have discard: "historyIndex s < int (length (history s)) - 1 \<longrightarrow>
      history (saveState s) = take (nat (historyIndex s + 1)) (history s) @ [tasks s] \<and>
      historyIndex (saveState s) = historyIndex s + 1 \<and>
      redo (saveState s) = Inl NothingToRedo"
  proof
    assume "historyIndex s < int (length (history s)) - 1"
    with bounds have "historyIndex s \<noteq> maxHistorySize - 1"
      by (simp add: maxHistorySize_def)
    from saveState_below_capacity[OF ok this] redo_saveState[OF ok]
    show "history (saveState s) = take (nat (historyIndex s + 1)) (history s) @ [tasks s] \<and>
      historyIndex (saveState s) = historyIndex s + 1 \<and>
      redo (saveState s) = Inl NothingToRedo" by simp
  qed
  have evict: "historyIndex s = int (length (history s)) - 1 \<and> length (history s) = 50 \<longrightarrow>
      history (saveState s) = tl (history s) @ [tasks s] \<and>
      historyIndex (saveState s) = historyIndex s"
  proof
    assume "historyIndex s = int (length (history s)) - 1 \<and> length (history s) = 50"
    then have "historyIndex s = maxHistorySize - 1" by (simp add: maxHistorySize_def)
    from saveState_at_capacity[OF ok this]
    show "history (saveState s) = tl (history s) @ [tasks s] \<and>
      historyIndex (saveState s) = historyIndex s" by simp
  qed
  from bounds discard evict show ?thesis by blast
qed

theorem history_within_bounds_witness:
  "reachable after_undo \<and> historyIndex after_undo = 2 \<and> length (history after_undo) = 4 \<and>
   history (saveState after_undo) = take 3 (history after_undo) @ [tasks after_undo] \<and>
   historyIndex (saveState after_undo) = 3 \<and>
   redo (saveState after_undo) = Inl NothingToRedo \<and>
   reachable full_history \<and> historyIndex full_history = 49 \<and>
   length (history full_history) = 50 \<and>
   history (saveState full_history) = tl (history full_history) @ [tasks full_history] \<and>
   historyIndex (saveState full_history) = 49"
proof -
  have e1: "historyIndex after_undo = 2" "length (history after_undo) = 4"
    by (simp_all add: after_undo_shape after_delete_history)
  have e2: "historyIndex full_history = 49" "length (history full_history) = 50"
    by (simp_all add: full_history_shape)
  show ?thesis
    using history_within_bounds[OF reachable_after_undo]
      history_within_bounds[OF reachable_full_history]
      reachable_after_undo reachable_full_history e1 e2
    by simp
qed

section \<open>An id that no task has\<close>

text \<open>
  C10, as amended. In a reachable state, \<open>deleteTask\<close> and \<open>toggleTask\<close> with an id
  that no task has do exactly what \<open>saveState\<close> does: the task list and both counters
  stay as they are, and a snapshot of the list is appended to the history after the
  entries behind the index are discarded. The index moves onto the new snapshot by
  going up by one, except when it already stands at 49 in a full history: then the
  oldest snapshot is evicted and the index stays at 49.
\<close>

theorem absent_id_saves_state:
  assumes "reachable s" and "find (\<lambda>t. task_id t = i) (tasks s) = None"
  shows "deleteTask i s = saveState s \<and> toggleTask today i s = saveState s \<and>
         tasks (saveState s) = tasks s \<and>
         activeCount (saveState s) = activeCount s \<and>
         completedCount (saveState s) = completedCount s \<and>
         history (saveState s) =
           (if historyIndex s = 49 then tl (history s)
            else take (nat (historyIndex s + 1)) (history s)) @ [tasks s] \<and>
         historyIndex (saveState s) = (if historyIndex s = 49 then 49 else historyIndex s + 1)"
proof -
  have ok: "history_ok s" using assms(1) by (rule reachable_history_ok)
  have hist: "history (saveState s) =
           (if historyIndex s = 49 then tl (history s)
            else take (nat (historyIndex s + 1)) (history s)) @ [tasks s] \<and>
         historyIndex (saveState s) = (if historyIndex s = 49 then 49 else historyIndex s + 1)"
  proof (cases "historyIndex s = maxHistorySize - 1")
    case True
    from saveState_at_capacity[OF ok True] True show ?thesis
      by (simp add: maxHistorySize_def)
  next
    case False
    from saveState_below_capacity[OF ok False] False show ?thesis
      by (simp add: maxHistorySize_def)
  qed
  from hist deleteTask_absent[OF assms(2)] toggleTask_absent[OF assms(2)]
  show ?thesis by simp
qed

theorem absent_id_saves_state_witness:
  "reachable after_delete \<and> find (\<lambda>t. task_id t = ''2000'') (tasks after_delete) = None \<and>
   deleteTask ''2000'' after_delete = saveState after_delete \<and>
   toggleTask 0 ''2000'' after_delete = saveState after_delete \<and>
   tasks (saveState after_delete) = tasks after_delete \<and>
   history (saveState after_delete) = history after_delete @ [tasks after_delete] \<and>
   historyIndex (saveState after_delete) = 4"
proof -
  have absent: "find (\<lambda>t. task_id t = ''2000'') (tasks after_delete) = None"
    by (simp add: example_defs)
  show ?thesis
    using absent_id_saves_state[OF reachable_after_delete absent, of 0] absent
      reachable_after_delete after_delete_history
    by simp
qed

text \<open>
  C10 as stated fails on a full history: after fifty snapshots of the empty list the
  index does not advance, and the whole state is left as it was.
\<close>

theorem absent_id_full_history_unchanged:
  "reachable full_history \<and>
   find (\<lambda>t. task_id t = ''1'') (tasks full_history) = None \<and>
   historyIndex full_history = 49 \<and>
   deleteTask ''1'' full_history = full_history \<and>
   toggleTask 0 ''1'' full_history = full_history \<and>
   historyIndex (deleteTask ''1'' full_history) = historyIndex full_history"
proof -
  have absent: "find (\<lambda>t. task_id t = ''1'') (tasks full_history) = None"
    by (simp add: full_history_shape)
  have "tl (replicate 50 ([]::task list)) @ [[]] = replicate 50 []"
    by (simp add: eval_nat_numeral)
  then have "saveState full_history = full_history"
    using saveState_at_capacity[OF reachable_history_ok[OF reachable_full_history]]
      full_history_shape
    by (simp add: maxHistorySize_def saveState_def Let_def)
  with deleteTask_absent[OF absent] toggleTask_absent[OF absent, of 0] absent full_history_shape
    reachable_full_history
  show ?thesis by simp
qed

section \<open>What undo and redo restore\<close>

text \<open>
  C2, on the code. Three tasks are added and the second is deleted. \<open>undo\<close> then
  succeeds, but the list it restores is the one from before the third task was added,
  not the list of three tasks from before the delete.
\<close>

theorem undo_after_delete:
  "reachable after_delete \<and>
   tasks three_tasks
     = [\<lparr>task_id = ''3000'', task_text = ''third'', completed = False, createdAt = 3000,
          dueDate = None, dueTime = None, location = None\<rparr>,
        \<lparr>task_id = ''2000'', task_text = ''second'', completed = False, createdAt = 2000,
          dueDate = None, dueTime = None, location = None\<rparr>,
        \<lparr>task_id = ''1000'', task_text = ''first'', completed = False, createdAt = 1000,
          dueDate = None, dueTime = None, location = None\<rparr>] \<and>
   map task_id (tasks after_delete) = [''3000'', ''1000''] \<and>
   (case undo after_delete of
      Inr s \<Rightarrow> tasks s = tasks two_tasks \<and> map task_id (tasks s) = [''2000'', ''1000''] \<and>
               tasks s \<noteq> tasks three_tasks
    | Inl e \<Rightarrow> False)"
  using reachable_after_delete
  by (simp add: example_defs undo_def restore_def recalculateCounters_def)

text \<open>
  C3, on the code. In the same state \<open>undo\<close> followed at once by \<open>redo\<close> does not give
  back the list that was current before the \<open>undo\<close>, the two tasks left by the delete:
  it gives the three tasks from before the delete.
\<close>

theorem undo_then_redo:
  "reachable after_delete \<and>
   map task_id (tasks after_delete) = [''3000'', ''1000''] \<and>
   (case undo after_delete of
      Inr s \<Rightarrow>
        (case redo s of
           Inr s' \<Rightarrow> tasks s' = tasks three_tasks \<and>
                     map task_id (tasks s') = [''3000'', ''2000'', ''1000''] \<and>
                     tasks s' \<noteq> tasks after_delete
         | Inl e \<Rightarrow> False)
    | Inl e \<Rightarrow> False)"
  using reachable_after_delete
  by (simp add: example_defs undo_def redo_def restore_def recalculateCounters_def)

section \<open>The cached counters\<close>

text \<open>
  Every handler keeps the cached counters equal to a scan of the list as long as the ids
  of the tasks are pairwise distinct and a drop finds a non-empty list; \<open>deleteTask\<close>,
  and \<open>saveEdit\<close> through it, is the one handler that needs the distinct ids.
\<close>

lemma count_loop_filter:
  "count_loop ts (a, c) =
     (a + int (length (filter (\<lambda>t. \<not> completed t) ts)), c + int (length (filter completed ts)))"
  by (induction ts arbitrary: a c) simp_all

lemma counters_ok_recalculateCounters: "counters_ok (recalculateCounters s)"
proof -
  have "length (filter completed (tasks s)) + length (filter (\<lambda>t. \<not> completed t) (tasks s))
          = length (tasks s)"
    by (rule sum_length_filter_compl)
  then show ?thesis
    by (simp add: counters_ok_def recalculateCounters_def count_loop_filter)
qed

lemma counters_ok_restore:
  "counters_ok s' \<Longrightarrow> counters_ok (left_in s (restore s'))"
  by (simp add: restore_def Let_def counters_ok_recalculateCounters)

lemma filter_absent_id:
  "i \<notin> task_id ` set ts \<Longrightarrow> filter (\<lambda>t. task_id t \<noteq> i) ts = ts"
  by (induction ts) auto

lemma delete_counts:
  assumes "distinct (map task_id ts)" and "find (\<lambda>t. task_id t = i) ts = Some t"
  shows "Suc (length (filter (\<lambda>t. task_id t \<noteq> i) ts)) = length ts \<and>
         length (filter completed (filter (\<lambda>t. task_id t \<noteq> i) ts)) + (if completed t then 1 else 0)
           = length (filter completed ts)"
  using assms
proof (induction ts)
  case Nil
  then show ?case by simp
next
  case (Cons x xs)
  show ?case
  proof (cases "task_id x = i")
    case True
    with Cons.prems have "t = x" and "i \<notin> task_id ` set xs" by auto
    then show ?thesis using True by (simp add: filter_absent_id)
  next
    case False
    with Cons.prems have "distinct (map task_id xs)" and "find (\<lambda>t. task_id t = i) xs = Some t"
      by simp_all
    from Cons.IH[OF this] False show ?thesis by simp
  qed
qed

lemma counters_ok_deleteTask:
  assumes "counters_ok s" and "distinct (map task_id (tasks s))"
  shows "counters_ok (deleteTask i s)"
proof (cases "find (\<lambda>t. task_id t = i) (tasks s)")
  case None
  then show ?thesis using assms(1) by (simp add: deleteTask_absent counters_ok_def)
next
  case (Some t)
  from delete_counts[OF assms(2) Some] assms(1) Some show ?thesis
    by (auto simp: deleteTask_def Let_def counters_ok_def)
qed

lemma complete_first_count:
  "find P ts = Some t \<Longrightarrow> \<not> completed t \<Longrightarrow>
   length (filter completed (update_first P (\<lambda>t. t\<lparr>completed := True\<rparr>) ts))
     = Suc (length (filter completed ts))"
  by (induction ts) (auto split: if_splits)

lemma uncomplete_first_count:
  "find P ts = Some t \<Longrightarrow> completed t \<Longrightarrow>
   Suc (length (filter completed (update_first P (\<lambda>t. t\<lparr>completed := False\<rparr>) ts)))
     = length (filter completed ts)"
  by (induction ts) (auto split: if_splits)

lemma counters_ok_toggleTask:
  assumes "counters_ok s"
  shows "counters_ok (toggleTask today i s)"
proof (cases "find (\<lambda>t. task_id t = i) (tasks s)")
  case None
  then show ?thesis using assms by (simp add: toggleTask_absent counters_ok_def)
next
  case (Some t)
  show ?thesis
  proof (cases "completed t")
    case True
    from uncomplete_first_count[OF Some True] assms show ?thesis
      by (simp add: toggleTask_uncomplete[OF Some True] counters_ok_def)
  next
    case False
    from complete_first_count[OF Some False] assms show ?thesis
      by (simp add: toggleTask_complete[OF Some False] counters_ok_def)
  qed
qed

lemma completed_update_same:
  "completed t \<Longrightarrow> t\<lparr>completed := True\<rparr> = t"
  "\<not> completed t \<Longrightarrow> t\<lparr>completed := False\<rparr> = t"
  by (cases t, simp)+

lemma complete_each_tasks:
  "fst (complete_each today ts st) = map (\<lambda>t. t\<lparr>completed := True\<rparr>) ts"
  by (induction ts arbitrary: st) (simp_all add: case_prod_beta completed_update_same)

lemma uncomplete_each_tasks:
  "fst (uncomplete_each today ts st) = map (\<lambda>t. t\<lparr>completed := False\<rparr>) ts"
  by (induction ts arbitrary: st) (simp_all add: case_prod_beta completed_update_same)

lemma counters_ok_toggleAllTasks: "counters_ok (toggleAllTasks today s)"
proof -
  have all: "filter completed (map (\<lambda>t. t\<lparr>completed := True\<rparr>) ts)
               = map (\<lambda>t. t\<lparr>completed := True\<rparr>) ts" for ts :: "task list"
    by (induction ts) simp_all
  have none: "filter completed (map (\<lambda>t. t\<lparr>completed := False\<rparr>) ts) = []" for ts :: "task list"
    by (induction ts) simp_all
  show ?thesis
    using complete_each_tasks[of today "tasks s" "stats s"]
      uncomplete_each_tasks[of today "tasks s" "stats s"]
    by (auto simp: toggleAllTasks_def Let_def counters_ok_def all none split: prod.splits)
qed

lemma counters_ok_clearCompletedTasks:
  assumes "counters_ok s"
  shows "counters_ok (clearCompletedTasks s)"
proof -
  have "length (filter completed (tasks s)) + length (filter (\<lambda>t. \<not> completed t) (tasks s))
          = length (tasks s)"
    by (rule sum_length_filter_compl)
  with assms show ?thesis
    by (simp add: clearCompletedTasks_def Let_def counters_ok_def)
qed

lemma counters_ok_addTask:
  "counters_ok s \<Longrightarrow> counters_ok (addTask now now' txt dd dt loc s)"
  by (simp add: addTask_def Let_def counters_ok_def)

lemma edit_first_count:
  "(\<And>t. completed (f t) = completed t) \<Longrightarrow>
   length (filter completed (update_first P f ts)) = length (filter completed ts)"
  by (induction ts) simp_all

lemma counters_ok_saveEdit:
  assumes "counters_ok s" and "distinct (map task_id (tasks s))"
  shows "counters_ok (saveEdit i txt dd dt loc s)"
proof (cases "trim txt = []")
  case True
  then show ?thesis using assms by (simp add: saveEdit_def counters_ok_deleteTask)
next
  case False
  then show ?thesis using assms(1)
    by (simp add: saveEdit_def Let_def counters_ok_def edit_first_count)
qed

lemma splice_counts:
  assumes "splice_remove1 xs i = (Some x, rest)"
  shows "length (filter Q (splice_insert rest j x)) = length (filter Q xs)"
proof -
  define k where "k = relative_index i (length xs)"
  define m where "m = relative_index j (length rest)"
  from assms have k: "k < length xs" and x: "x = xs ! k"
    and rest: "rest = take k xs @ drop (Suc k) xs"
    by (auto simp: splice_remove1_def Let_def k_def split: if_splits)
  have "length (filter Q xs) = length (filter Q (take k xs @ xs ! k # drop (Suc k) xs))"
    by (rule arg_cong[where f = "\<lambda>v. length (filter Q v)", OF id_take_nth_drop[OF k]])
  also have "\<dots> = length (filter Q rest) + (if Q x then 1 else 0)"
    by (simp add: rest x)
  finally have whole: "length (filter Q xs) = length (filter Q rest) + (if Q x then 1 else 0)" .
  have "length (filter Q rest) = length (filter Q (take m rest @ drop m rest))"
    by simp
  also have "\<dots> = length (filter Q (take m rest)) + length (filter Q (drop m rest))"
    by (simp only: filter_append length_append)
  finally have parts: "length (filter Q rest)
      = length (filter Q (take m rest)) + length (filter Q (drop m rest))" .
  have "length (filter Q (splice_insert rest j x))
      = length (filter Q (take m rest)) + (if Q x then 1 else 0) + length (filter Q (drop m rest))"
    by (simp add: splice_insert_def m_def Let_def)
  with whole parts show ?thesis by simp
qed

text \<open>
  A drop on a non-empty list returns normally and keeps the counters; the drop on an
  empty list, where the source stores \<open>undefined\<close>, is not covered.
\<close>

lemma findIndex_bounds: "- 1 \<le> findIndex P xs \<and> findIndex P xs < int (length xs)"
  by (induction xs) (auto simp: Let_def)

lemma relative_index_less: "0 < len \<Longrightarrow> i < int len \<Longrightarrow> relative_index i len < len"
  by (auto simp: relative_index_def)

lemma counters_ok_handleDrop:
  assumes "counters_ok s" and "tasks s \<noteq> []"
  shows "\<exists>s'. handleDrop x y s = Inr s' \<and> counters_ok s'"
proof -
  let ?i = "findIndex (\<lambda>t. task_id t = x) (tasks s)"
  let ?k = "relative_index ?i (length (tasks s))"
  have k: "?k < length (tasks s)"
    using assms(2) findIndex_bounds[of "\<lambda>t. task_id t = x" "tasks s"]
    by (intro relative_index_less) simp_all
  then have sp: "splice_remove1 (tasks s) ?i
                   = (Some (tasks s ! ?k), take ?k (tasks s) @ drop (Suc ?k) (tasks s))"
    by (simp add: splice_remove1_def Let_def)
  from splice_counts[OF sp, of completed] splice_counts[OF sp, of "\<lambda>_. True"] assms(1)
  show ?thesis by (simp add: handleDrop_def Let_def counters_ok_def sp)
qed

lemma tick_tasks:
  "tasks (left_in s (map_sum id snd (tick today g b s))) = tasks s"
  "activeCount (left_in s (map_sum id snd (tick today g b s))) = activeCount s"
  "completedCount (left_in s (map_sum id snd (tick today g b s))) = completedCount s"
  by (simp_all add: tick_def countdown_def timerComplete_def Let_def startBreak_def
        startCountdown_def cleanupFocusMode_def)

lemma startFocusMode_tasks:
  "tasks (startFocusMode i a s) = tasks s"
  "activeCount (startFocusMode i a s) = activeCount s"
  "completedCount (startFocusMode i a s) = completedCount s"
  by (simp_all add: startFocusMode_def startCountdown_def split: option.splits)

lemma counters_ok_perform:
  assumes "counters_ok s" and "distinct (map task_id (tasks s))"
    and "\<And>x y. a = Drop x y \<Longrightarrow> tasks s \<noteq> []"
  shows "counters_ok (perform a s)"
proof (cases a)
  case (AddTask now now' tx dd dt loc)
  then show ?thesis using assms(1) by (simp add: counters_ok_addTask)
next
  case (DeleteTask i)
  then show ?thesis using assms by (simp add: counters_ok_deleteTask)
next
  case (ToggleTask today i)
  then show ?thesis using assms(1) by (simp add: counters_ok_toggleTask)
next
  case (ToggleAllTasks today)
  then show ?thesis by (simp add: counters_ok_toggleAllTasks)
next
  case ClearCompletedTasks
  then show ?thesis using assms(1) by (simp add: counters_ok_clearCompletedTasks)
next
  case (SaveEdit i tx dd dt loc)
  then show ?thesis using assms by (simp add: counters_ok_saveEdit)
next
  case (Drop x y)
  from assms(3)[OF Drop] have "tasks s \<noteq> []" .
  from counters_ok_handleDrop[OF assms(1) this, of x y]
  obtain s' where "handleDrop x y s = Inr s'" and "counters_ok s'" by blast
  then show ?thesis using Drop by simp
next
  case Undo
  have "counters_ok (s\<lparr>historyIndex := historyIndex s - 1\<rparr>)"
    using assms(1) by (simp add: counters_ok_def)
  then show ?thesis using Undo assms(1) by (simp add: undo_def counters_ok_restore)
next
  case Redo
  have "counters_ok (s\<lparr>historyIndex := historyIndex s + 1\<rparr>)"
    using assms(1) by (simp add: counters_ok_def)
  then show ?thesis using Redo assms(1) by (simp add: redo_def counters_ok_restore)
next
  case (StartFocusMode i a)
  then show ?thesis using assms(1) by (simp add: counters_ok_def startFocusMode_tasks)
next
  case (Tick today g b)
  then show ?thesis using assms(1) by (simp add: counters_ok_def tick_tasks)
next
  case PauseFocusTimer
  then show ?thesis using assms(1) by (simp add: counters_ok_def pauseFocusTimer_def)
next
  case ResumeFocusTimer
  then show ?thesis using assms(1) by (simp add: counters_ok_def resumeFocusTimer_def)
next
  case (StopFocusMode c)
  then show ?thesis using assms(1)
    by (simp add: counters_ok_def stopFocusMode_def cleanupFocusMode_def)
qed

lemma counters_ok_cong:
  "tasks s' = tasks s \<Longrightarrow> activeCount s' = activeCount s \<Longrightarrow>
   completedCount s' = completedCount s \<Longrightarrow> counters_ok s' = counters_ok s"
  by (simp add: counters_ok_def)

lemma counters_ok_start:
  assumes "newTodoApp today st ss = Inr s"
  shows "counters_ok s"
proof -
  let ?c = "constructor_fields today"
  let ?s1 = "case st of Absent \<Rightarrow> ?c
               | Corrupt \<Rightarrow> ?c\<lparr>tasks := [], activeCount := 0, completedCount := 0\<rparr>
               | Parsed ts \<Rightarrow> recalculateCounters (?c\<lparr>tasks := ts\<rparr>)"
  have s1: "counters_ok ?s1"
    by (cases st)
      (simp_all add: counters_ok_recalculateCounters, simp_all add: counters_ok_def constructor_fields_def)
  from assms have "tasks s = tasks ?s1 \<and> activeCount s = activeCount ?s1 \<and>
      completedCount s = completedCount ?s1"
    by (auto simp: newTodoApp_def loadFromStorage_def Let_def split: stored.splits sum.splits)
  then show ?thesis using s1 counters_ok_cong by blast
qed

lemma same_millisecond_run:
  "same_millisecond =
     run [AddTask 1000 1000 ''first'' [] [] [], AddTask 1000 1000 ''second'' [] [] [],
          DeleteTask ''1000''] fresh"
  by (simp add: run_def same_millisecond_def one_task_def)

lemma reachable_same_millisecond: "reachable same_millisecond"
  unfolding same_millisecond_run using reachable_fresh by (rule reachable_run)

text \<open>
  C1, on the code. Two tasks added within one millisecond get the same id. A delete of
  that id takes one from the active counter and removes both tasks: the list is empty
  and the active counter is 1.
\<close>

theorem counters_after_same_millisecond:
  "reachable same_millisecond \<and>
   tasks same_millisecond = [] \<and> activeCount same_millisecond = 1 \<and>
   completedCount same_millisecond = 0 \<and> \<not> counters_ok same_millisecond"
  using reachable_same_millisecond
  by (simp add: same_millisecond_def example_defs counters_ok_def)

section \<open>The streak\<close>

lemma streak_loop_takeWhile:
  "i \<le> length cd \<Longrightarrow>
   streak_loop cd i n = n + length (takeWhile (\<lambda>d. totalActivity d > 0) (rev (take i cd)))"
proof (induction i arbitrary: n)
  case 0
  then show ?case by simp
next
  case (Suc i)
  then have "take (Suc i) cd = take i cd @ [cd ! i]"
    by (simp add: take_Suc_conv_app_nth)
  with Suc show ?case by simp
qed

lemma updateStreak_takeWhile:
  "streak (updateStreak st) =
     length (takeWhile (\<lambda>d. totalActivity d > 0) (rev (contributionData st)))"
  by (simp add: updateStreak_def streak_loop_takeWhile)

lemma streak_loop_numeral:
  "streak_loop cd (numeral k) n =
     (if totalActivity (cd ! pred_numeral k) > 0 then streak_loop cd (pred_numeral k) (n + 1)
      else n)"
  by (simp add: numeral_eq_Suc)

lemma activity_window_map:
  "length (activity_window as) = length as"
  "map totalActivity (activity_window as) = as"
proof -
  show "length (activity_window as) = length as"
    by (simp add: activity_window_def)
  have "map totalActivity (activity_window as) = map snd (zip [0..<length as] as)"
    by (simp add: activity_window_def case_prod_beta comp_def)
  then show "map totalActivity (activity_window as) = as"
    by simp
qed

lemma six_days_window:
  "length (contributionData six_days) = 84"
  "map totalActivity (drop 78 (contributionData six_days)) = [0, 1, 1, 1, 0, 1]"
proof -
  show "length (contributionData six_days) = 84"
    by (simp add: six_days_def activity_window_map)
  have "map totalActivity (drop 78 (contributionData six_days))
          = drop 78 (map totalActivity (contributionData six_days))"
    by (simp add: drop_map)
  also have "\<dots> = drop 78 (replicate 78 0 @ [0, 1, 1, 1, 0, 1])"
    by (simp add: six_days_def activity_window_map)
  finally show "map totalActivity (drop 78 (contributionData six_days)) = [0, 1, 1, 1, 0, 1]"
    by simp
qed

text \<open>
  C5, as amended. When the last six days of the 84-day window have the activity
  0, 1, 1, 1, 0, 1 from the oldest to the newest, \<open>updateStreak\<close> sets the streak to 1:
  today counts, and the scan stops at yesterday, which has no activity.
\<close>

theorem streak_of_six_days:
  assumes "length (contributionData st) = 84"
    and "map totalActivity (drop 78 (contributionData st)) = [0, 1, 1, 1, 0, 1]"
  shows "streak (updateStreak st) = 1"
proof -
  let ?cd = "contributionData st"
  have nth: "totalActivity (?cd ! (78 + k)) = map totalActivity (drop 78 ?cd) ! k" if "k < 6" for k
    using that assms(1) by simp
  have today: "totalActivity (?cd ! 83) = 1"
    using nth[of 5] assms(2) by simp
  have yesterday: "totalActivity (?cd ! 82) = 0"
    using nth[of 4] assms(2) by simp
  have "streak_loop ?cd 84 0 = 1"
    using today yesterday by (simp add: streak_loop_numeral)
  then show ?thesis
    using assms(1) by (simp add: updateStreak_def)
qed

theorem streak_of_six_days_witness:
  "length (contributionData six_days) = 84 \<and>
   map totalActivity (drop 78 (contributionData six_days)) = [0, 1, 1, 1, 0, 1] \<and>
   streak (updateStreak six_days) = 1"
  using streak_of_six_days[OF six_days_window] six_days_window by simp

text \<open>C5 as stated fails: on such a window the streak is not 3.\<close>

theorem streak_of_six_days_is_not_three:
  "length (contributionData six_days) = 84 \<and>
   map totalActivity (drop 78 (contributionData six_days)) = [0, 1, 1, 1, 0, 1] \<and>
   streak (updateStreak six_days) \<noteq> 3"
proof -
  have "streak (updateStreak six_days) =
          length (takeWhile (\<lambda>d. totalActivity d > 0) (rev (contributionData six_days)))"
    by (rule updateStreak_takeWhile)
  also have "rev (contributionData six_days)
      = rev (drop 78 (contributionData six_days)) @ rev (take 78 (contributionData six_days))"
    by (metis append_take_drop_id rev_append)
  finally show ?thesis using six_days_window 
    by (auto simp: map_eq_Cons_conv)
qed

section \<open>The rollover of the window\<close>

lemma updateContributionData_length_last:
  assumes "contributionData st \<noteq> []"
  shows "\<exists>st'. updateContributionData today st = Inr st' \<and>
           length (contributionData st') = length (contributionData st) \<and>
           date (last (contributionData st')) = today"
  using assms by (auto simp: updateContributionData_def split: list.splits)

text \<open>
  C6, on the code. The statistics were last saved on day 0 and the application is
  opened on day 3. The window keeps 84 entries and ends today, but the entry before
  today is day 0: days 1 and 2 are missing.
\<close>

theorem rollover_after_three_days:
  "(case newTodoApp 3 Absent (Parsed (stats fresh)) of
      Inr s \<Rightarrow> length (contributionData (stats s)) = 84 \<and>
               map date (drop 81 (contributionData (stats s))) = [- 1, 0, 3]
    | Inl e \<Rightarrow> False)"
  by (simp add: newTodoApp_def loadFromStorage_def checkDailyReset_def
        updateContributionData_def fresh_def constructor_fields_def initContributionData_def
        daysToShow_def eval_nat_numeral Let_def)

section \<open>Toggling a task and toggling it back\<close>

text \<open>
  C7, as amended. When the first task with the given id is not completed and the window
  has an entry for today, \<open>toggleTask\<close> takes one from the active counter, adds one to the
  completed counter and adds one to today's task counter and to \<open>tasksCompletedToday\<close>.
  Toggling the same task again on the same day brings both counters, today's task
  counter, \<open>tasksCompletedToday\<close>, the task counter of every day and the task list
  back to what they were.
\<close>

theorem toggle_and_back:
  assumes "find (\<lambda>t. task_id t = i) (tasks s) = Some t" and "\<not> completed t"
    and "todayData today (stats s) = Some d"
  shows "activeCount (toggleTask today i s) = activeCount s - 1 \<and>
         completedCount (toggleTask today i s) = completedCount s + 1 \<and>
         todayTasks today (stats (toggleTask today i s)) = Some (day_tasks d + 1) \<and>
         tasksCompletedToday (stats (toggleTask today i s)) = tasksCompletedToday (stats s) + 1 \<and>
         activeCount (toggleTask today i (toggleTask today i s)) = activeCount s \<and>
         completedCount (toggleTask today i (toggleTask today i s)) = completedCount s \<and>
         todayTasks today (stats (toggleTask today i (toggleTask today i s))) = Some (day_tasks d) \<and>
         tasksCompletedToday (stats (toggleTask today i (toggleTask today i s)))
           = tasksCompletedToday (stats s) \<and>
         map day_tasks (contributionData (stats (toggleTask today i (toggleTask today i s))))
           = map day_tasks (contributionData (stats s)) \<and>
         tasks (toggleTask today i (toggleTask today i s)) = tasks s"
proof -
  let ?P = "\<lambda>t. task_id t = i"
  let ?D = "\<lambda>d. date d = today"
  let ?inc = "\<lambda>d. d\<lparr>day_tasks := day_tasks d + 1, totalActivity := day_tasks d + 1 + pomodoros d\<rparr>"
  let ?dec = "\<lambda>d. if day_tasks d > 0
                   then d\<lparr>day_tasks := day_tasks d - 1, totalActivity := day_tasks d - 1 + pomodoros d\<rparr>
                   else d"
  let ?s1 = "toggleTask today i s"
  let ?cd = "contributionData (stats s)"
  have Pt: "task_id t = i" using find_Some_P[OF assms(1)] .
  have d: "find ?D ?cd = Some d" using assms(3) by (simp add: todayData_def)
  have Dd: "date d = today" using find_Some_P[OF d] .
  have s1: "?s1 = (saveState s)\<lparr>tasks := update_first ?P (\<lambda>t. t\<lparr>completed := True\<rparr>) (tasks s),
                          activeCount := activeCount s - 1,
                          completedCount := completedCount s + 1,
                          stats := incrementTasksCompleted today (stats s)\<rparr>"
    using assms(1,2) by (rule toggleTask_complete)
  have cd1: "contributionData (stats ?s1) = update_first ?D ?inc ?cd"
    by (simp add: s1 incrementTasksCompleted_def)
  have tct1: "tasksCompletedToday (stats ?s1) = tasksCompletedToday (stats s) + 1"
    by (simp add: s1 incrementTasksCompleted_def)
  have today1: "todayTasks today (stats ?s1) = Some (day_tasks d + 1)"
    using find_update_first[OF d, of ?inc] Dd by (simp add: todayTasks_def todayData_def cd1)
  have find1: "find ?P (tasks ?s1) = Some (t\<lparr>completed := True\<rparr>)"
    using find_update_first[OF assms(1), of "\<lambda>t. t\<lparr>completed := True\<rparr>"] Pt by (simp add: s1)
  let ?s2 = "toggleTask today i ?s1"
  have s2: "?s2 = (saveState ?s1)\<lparr>tasks := update_first ?P (\<lambda>t. t\<lparr>completed := False\<rparr>) (tasks ?s1),
                          activeCount := activeCount ?s1 + 1,
                          completedCount := completedCount ?s1 - 1,
                          stats := decrementTasksCompleted today (stats ?s1)\<rparr>"
    using find1 by (rule toggleTask_uncomplete) simp
  have tasks2: "tasks ?s2 = tasks s"
  proof -
    have "tasks ?s2 = update_first ?P (\<lambda>t. t\<lparr>completed := False\<rparr>)
                        (update_first ?P (\<lambda>t. t\<lparr>completed := True\<rparr>) (tasks s))"
      by (simp add: s2) (simp add: s1)
    also have "\<dots> = update_first ?P (\<lambda>t. t\<lparr>completed := True\<rparr>\<lparr>completed := False\<rparr>) (tasks s)"
      using update_first_twice[OF assms(1), of "\<lambda>t. t\<lparr>completed := True\<rparr>"] Pt by simp
    also have "\<dots> = tasks s"
      using update_first_same[OF assms(1), of "\<lambda>t. t\<lparr>completed := True\<rparr>\<lparr>completed := False\<rparr>"]
        assms(2) by simp
    finally show ?thesis .
  qed
  have cd2: "contributionData (stats ?s2) = update_first ?D (\<lambda>y. ?dec (?inc y)) ?cd"
  proof -
    have "contributionData (stats ?s2) = update_first ?D ?dec (update_first ?D ?inc ?cd)"
      using tct1 cd1 by (simp add: s2 decrementTasksCompleted_def)
    also have "\<dots> = update_first ?D (\<lambda>y. ?dec (?inc y)) ?cd"
      using update_first_twice[OF d, of ?inc ?dec] Dd by simp
    finally show ?thesis .
  qed
  have tct2: "tasksCompletedToday (stats ?s2) = tasksCompletedToday (stats s)"
    using tct1 by (simp add: s2 decrementTasksCompleted_def)
  have today2: "todayTasks today (stats ?s2) = Some (day_tasks d)"
    using find_update_first[OF d, of "\<lambda>y. ?dec (?inc y)"] Dd
    by (simp add: todayTasks_def todayData_def cd2)
  have map2: "map day_tasks (contributionData (stats ?s2)) = map day_tasks ?cd"
    unfolding cd2 by (rule map_update_first_same[OF d]) simp
  have c1: "activeCount ?s1 = activeCount s - 1" "completedCount ?s1 = completedCount s + 1"
    by (simp_all add: s1)
  have c2: "activeCount ?s2 = activeCount s" "completedCount ?s2 = completedCount s"
    using c1 by (simp_all add: s2)
  from c1 c2 today1 tct1 today2 tct2 map2 tasks2 show ?thesis by simp
qed

theorem toggle_and_back_witness:
  "find (\<lambda>t. task_id t = ''1000'') (tasks buy_milk)
     = Some \<lparr>task_id = ''1000'', task_text = ''Buy milk'', completed = False,
             createdAt = 1000, dueDate = None, dueTime = None, location = None\<rparr> \<and>
   todayData 0 (stats buy_milk)
     = Some \<lparr>date = 0, day_tasks = 0, pomodoros = 0, totalActivity = 0\<rparr> \<and>
   activeCount buy_milk = 1 \<and> completedCount buy_milk = 0 \<and>
   activeCount (toggleTask 0 ''1000'' buy_milk) = 0 \<and>
   completedCount (toggleTask 0 ''1000'' buy_milk) = 1 \<and>
   todayTasks 0 (stats (toggleTask 0 ''1000'' buy_milk)) = Some 1 \<and>
   activeCount (toggleTask 0 ''1000'' (toggleTask 0 ''1000'' buy_milk)) = 1 \<and>
   completedCount (toggleTask 0 ''1000'' (toggleTask 0 ''1000'' buy_milk)) = 0 \<and>
   todayTasks 0 (stats (toggleTask 0 ''1000'' (toggleTask 0 ''1000'' buy_milk))) = Some 0"
proof -
  have found: "find (\<lambda>t. task_id t = ''1000'') (tasks buy_milk)
     = Some \<lparr>task_id = ''1000'', task_text = ''Buy milk'', completed = False,
             createdAt = 1000, dueDate = None, dueTime = None, location = None\<rparr>"
    by (simp add: buy_milk_shape)
  have today: "todayData 0 (stats buy_milk)
     = Some \<lparr>date = 0, day_tasks = 0, pomodoros = 0, totalActivity = 0\<rparr>"
    by (simp add: buy_milk_shape todayData_fresh)
  show ?thesis
    using toggle_and_back[OF found _ today] found today buy_milk_shape(2,3)
    by simp
qed

lemma find_contributions_from_later:
  "today < day \<Longrightarrow> find (\<lambda>d. date d = day) (contributions_from today n) = None"
  by (induction n) simp_all

lemma todayData_fresh_next_day: "todayData 1 (stats fresh) = None"
  using find_contributions_from_later[of 0 1 daysToShow]
  by (simp add: todayData_def fresh_def constructor_fields_def initContributionData_def)

lemma update_first_absent: "find P xs = None \<Longrightarrow> update_first P f xs = xs"
  by (induction xs) (auto split: if_splits)

lemma buy_milk_run:
  "buy_milk = run [AddTask 1000 1000 ''Buy milk'' [] [] []] fresh"
  by (simp add: run_def buy_milk_def)

lemma reachable_buy_milk: "reachable buy_milk"
  unfolding buy_milk_run using reachable_fresh by (rule reachable_run)

text \<open>
  C7 as stated fails on a page that was opened on day 0 and is still open on day 1: the
  window has no entry for day 1, the toggle moves the two counters and adds one to
  \<open>tasksCompletedToday\<close>, and no entry of the window changes.
\<close>

theorem toggle_after_midnight:
  "reachable buy_milk \<and>
   find (\<lambda>t. task_id t = ''1000'') (tasks buy_milk)
     = Some \<lparr>task_id = ''1000'', task_text = ''Buy milk'', completed = False,
             createdAt = 1000, dueDate = None, dueTime = None, location = None\<rparr> \<and>
   todayTasks 1 (stats buy_milk) = None \<and>
   activeCount (toggleTask 1 ''1000'' buy_milk) = 0 \<and>
   completedCount (toggleTask 1 ''1000'' buy_milk) = 1 \<and>
   tasksCompletedToday (stats (toggleTask 1 ''1000'' buy_milk)) = 1 \<and>
   todayTasks 1 (stats (toggleTask 1 ''1000'' buy_milk)) = None \<and>
   contributionData (stats (toggleTask 1 ''1000'' buy_milk)) = contributionData (stats buy_milk)"
proof -
  have found: "find (\<lambda>t. task_id t = ''1000'') (tasks buy_milk)
     = Some \<lparr>task_id = ''1000'', task_text = ''Buy milk'', completed = False,
             createdAt = 1000, dueDate = None, dueTime = None, location = None\<rparr>"
    by (simp add: buy_milk_shape)
  have none: "find (\<lambda>d. date d = 1) (contributionData (stats buy_milk)) = None"
    using todayData_fresh_next_day by (simp add: buy_milk_shape todayData_def)
  have cd: "contributionData (incrementTasksCompleted 1 (stats buy_milk))
              = contributionData (stats buy_milk)"
    by (simp add: incrementTasksCompleted_def update_first_absent[OF none])
  have tct: "tasksCompletedToday (stats buy_milk) = 0"
    by (simp add: buy_milk_shape fresh_def constructor_fields_def)
  have toggled: "toggleTask 1 ''1000'' buy_milk =
           (saveState buy_milk)\<lparr>tasks := update_first (\<lambda>t. task_id t = ''1000'')
                                   (\<lambda>t. t\<lparr>completed := True\<rparr>) (tasks buy_milk),
                          activeCount := activeCount buy_milk - 1,
                          completedCount := completedCount buy_milk + 1,
                          stats := incrementTasksCompleted 1 (stats buy_milk)\<rparr>"
    by (rule toggleTask_complete[OF found]) simp
  show ?thesis
    using reachable_buy_milk found none cd tct
    by (simp add: toggled todayTasks_def todayData_def buy_milk_shape(2,3)
          incrementTasksCompleted_def)
qed

section \<open>Rejected focus durations\<close>

text \<open>
  A minus sign followed by decimal digits converts to a number that is not positive, so
  every such answer is rejected.
\<close>

lemma digit_not_ws: "is_radix_digit 10 c \<Longrightarrow> \<not> is_ws c"
  by (auto simp: is_radix_digit_def digit_of_def is_ws_def Let_def split: if_splits option.splits)

lemma digit_not_prefix: "is_radix_digit 10 c \<Longrightarrow> prefix_radix c = None"
  by (auto simp: is_radix_digit_def digit_of_def prefix_radix_def Let_def
           split: if_splits option.splits)

lemma trim_minus_digits:
  assumes "ds \<noteq> []" and "list_all (is_radix_digit 10) ds"
  shows "trim (CHR ''-'' # ds) = CHR ''-'' # ds"
proof -
  have minus: "\<not> is_ws CHR ''-''" by (simp add: is_ws_def)
  have all: "list_all (is_radix_digit 10) (rev ds)" and ne: "rev ds \<noteq> []"
    using assms by (simp_all add: list_all_iff)
  then obtain d ds' where rev: "rev ds = d # ds'" and d: "is_radix_digit 10 d"
    by (cases "rev ds") auto
  have "dropWhile is_ws (rev (CHR ''-'' # ds)) = rev (CHR ''-'' # ds)"
    using digit_not_ws[OF d] by (simp add: rev)
  then show ?thesis using minus by (simp add: trim_def)
qed

lemma to_double_of_nat:
  "to_double (of_nat n) = Fin 0 \<or> to_double (of_nat n) = PosInfinity \<or>
   to_double (of_nat n) = Fin (of_nat n)"
  by (simp add: to_double_def)

lemma toNumber_minus_digits:
  assumes "ds \<noteq> []" and "list_all (is_radix_digit 10) ds"
  shows "toNumber (CHR ''-'' # ds) = NegInfinity \<or>
         (\<exists>r. toNumber (CHR ''-'' # ds) = Fin r \<and> r \<le> 0)"
proof -
  from assms obtain d ds' where ds: "ds = d # ds'" and d: "is_radix_digit 10 d"
    by (cases ds) auto
  have nd: "nondecimal (CHR ''-'' # ds) = None"
    using digit_not_prefix[OF d] by (simp add: nondecimal_def ds)
  have inf: "ds \<noteq> ''Infinity''"
    using assms(2) by (auto simp: is_radix_digit_def digit_of_def)
  have tw: "takeWhile (is_radix_digit 10) ds = ds" "dropWhile (is_radix_digit 10) ds = []"
    using assms(2) by (simp_all add: list_all_iff)
  have "unsigned_decimal ds = to_double (of_nat (radix_value 10 ds))"
    using inf assms(1) by (simp add: unsigned_decimal_def tw exponent_part_def pow10_def)
  then have "toNumber (CHR ''-'' # ds) = js_neg (to_double (of_nat (radix_value 10 ds)))"
    using trim_minus_digits[OF assms] nd by (simp add: toNumber_def)
  then show ?thesis
    using to_double_of_nat[of "radix_value 10 ds"] by auto
qed

lemma negative_integer_rejected:
  assumes "ds \<noteq> []" and "list_all (is_radix_digit 10) ds"
  shows "startFocusMode taskId (Some (CHR ''-'' # ds)) s = s"
proof -
  from toNumber_minus_digits[OF assms]
  have "isNaN (toNumber (CHR ''-'' # ds)) \<or> js_le0 (toNumber (CHR ''-'' # ds))"
    by auto
  then show ?thesis
    by (simp add: startFocusMode_def split: option.splits)
qed

text \<open>
  C8. An answer to the prompt that converts to \<open>NaN\<close>, to a negative infinity or to a
  number that is not positive is rejected by \<open>startFocusMode\<close>: the state of the
  application, and with it the session and every field of the timer, stays as it is.
\<close>

theorem invalid_duration_rejected:
  assumes "toNumber minutes = NaN \<or> toNumber minutes = NegInfinity \<or>
           (\<exists>r. toNumber minutes = Fin r \<and> r \<le> 0)"
  shows "startFocusMode taskId (Some minutes) s = s"
proof -
  from assms have "isNaN (toNumber minutes) \<or> js_le0 (toNumber minutes)"
    by auto
  then show ?thesis
    by (simp add: startFocusMode_def split: option.splits)
qed

theorem invalid_duration_rejected_witness:
  "toNumber ''-5'' = Fin (- 5) \<and> toNumber ''abc'' = NaN \<and>
   find (\<lambda>t. task_id t = ''1000'') (tasks buy_milk) \<noteq> None \<and>
   startFocusMode ''1000'' (Some ''-5'') buy_milk = buy_milk \<and>
   startFocusMode ''1000'' (Some ''abc'') buy_milk = buy_milk \<and>
   focusModeActive buy_milk = False"
proof -
  have a: "toNumber ''-5'' = NaN \<or> toNumber ''-5'' = NegInfinity \<or>
           (\<exists>r. toNumber ''-5'' = Fin r \<and> r \<le> 0)"
    by (simp add: toNumber_examples)
  have b: "toNumber ''abc'' = NaN \<or> toNumber ''abc'' = NegInfinity \<or>
           (\<exists>r. toNumber ''abc'' = Fin r \<and> r \<le> 0)"
    by (simp add: toNumber_examples)
  have c: "focusModeActive buy_milk = False"
    by (simp add: buy_milk_def fresh_def constructor_fields_def addTask_def Let_def)
  show ?thesis
    using invalid_duration_rejected[OF a, of "''1000''" buy_milk]
      invalid_duration_rejected[OF b, of "''1000''" buy_milk] c
    by (simp add: toNumber_examples buy_milk_shape)
qed

section \<open>A focus session of 25 minutes\<close>

lemma startFocusMode_25:
  assumes "find (\<lambda>t. task_id t = taskId) (tasks s) = Some t"
  shows "startFocusMode taskId (Some ''25'') s =
           s\<lparr>currentTask := Some t, timerDuration := Fin 1500, timeRemaining := Fin 1500,
             timerPaused := False, focusModeActive := True, timerInterval := True\<rparr>"
  using assms
  by (simp add: startFocusMode_def startCountdown_def toNumber_examples parseInt_25)

lemma tick_running:
  assumes "timerInterval s" and "\<not> timerPaused s" and "timeRemaining s = Fin r" and "1 < r"
  shows "tick today granted takeBreak s = Inr (None, s\<lparr>timeRemaining := Fin (r - 1)\<rparr>)"
  using assms by (simp add: tick_def countdown_def)

lemma ticks_running:
  assumes "timerInterval s" and "\<not> timerPaused s" and "timeRemaining s = Fin r"
    and "of_nat n < r"
  shows "ticks n today granted takeBreak s = Inr ([], s\<lparr>timeRemaining := Fin (r - of_nat n)\<rparr>)"
  using assms
proof (induction n arbitrary: s r)
  case 0
  then have "s\<lparr>timeRemaining := Fin r\<rparr> = s" by simp
  then show ?case by simp
next
  case (Suc n)
  let ?s1 = "s\<lparr>timeRemaining := Fin (r - 1)\<rparr>"
  from Suc.prems have r: "1 < r" "of_nat n < r - 1" by simp_all
  have step: "tick today granted takeBreak s = Inr (None, ?s1)"
    using Suc.prems(1,2,3) r(1) by (rule tick_running)
  have rest: "ticks n today granted takeBreak ?s1
                = Inr ([], ?s1\<lparr>timeRemaining := Fin (r - 1 - of_nat n)\<rparr>)"
    using Suc.prems(1,2) r(2) by (intro Suc.IH) simp_all
  show ?case by (simp add: step rest algebra_simps)
qed

lemma ticks_add:
  "ticks n today granted takeBreak s = Inr (rs, s') \<Longrightarrow>
   ticks (n + m) today granted takeBreak s =
     (case ticks m today granted takeBreak s' of
        Inl e \<Rightarrow> Inl e
      | Inr (rs', s'') \<Rightarrow> Inr (rs @ rs', s''))"
proof (induction n arbitrary: s rs)
  case 0
  then show ?case by (auto split: sum.splits)
next
  case (Suc n)
  then show ?case
    by (auto split: sum.splits prod.splits option.splits)
qed

lemma ticks_then_report:
  assumes "ticks n today granted takeBreak s = Inr ([], s1)"
    and "tick today granted takeBreak s1 = Inr (Some r, s2)"
  shows "ticks (Suc n) today granted takeBreak s = Inr ([r], s2)"
  using ticks_add[OF assms(1), of 1] assms(2) by simp

lemma ticks_then_error:
  assumes "ticks n today granted takeBreak s = Inr ([], s1)"
    and "tick today granted takeBreak s1 = Inl e"
  shows "ticks (Suc n) today granted takeBreak s = Inl e"
  using ticks_add[OF assms(1), of 1] assms(2) by simp

lemma session_minutes_25: "js_round (js_div60 (Fin 1500)) = Fin 25"
proof -
  have "\<lfloor>(51::rat) / 2\<rfloor> = 25" by (simp add: floor_eq_iff)
  then show ?thesis by simp
qed

lemma final_tick_granted:
  assumes "timerInterval s" and "\<not> timerPaused s" and "timeRemaining s = Fin 1"
    and "\<not> isBreakTime s"
  shows "\<exists>s'. tick today True takeBreak s = Inl (Thrown TypeError s') \<and>
          pomodoroCount s' = pomodoroCount s + 1 \<and>
          pomodorosToday s' = pomodorosToday s + 1 \<and>
          totalFocusTime (stats s')
            = js_add (totalFocusTime (stats s)) (js_round (js_div60 (timerDuration s))) \<and>
          contributionData (stats s') = contributionData (incrementPomodoros today (stats s)) \<and>
          \<not> focusModeActive s' \<and> \<not> timerInterval s' \<and> currentTask s' = None"
  using assms
  by (simp add: tick_def countdown_def timerComplete_def Let_def cleanupFocusMode_def
        addFocusTime_def incrementPomodoros_def)

lemma final_tick_not_granted:
  assumes "timerInterval s" and "\<not> timerPaused s" and "timeRemaining s = Fin 1"
    and "\<not> isBreakTime s"
  shows "\<exists>s'. tick today False takeBreak s =
             Inr (Some (OfferBreak (if (pomodoroCount s + 1) mod 4 = 0 then 15 else 5)), s') \<and>
          pomodoroCount s' = pomodoroCount s + 1 \<and>
          pomodorosToday s' = pomodorosToday s + 1 \<and>
          totalFocusTime (stats s')
            = js_add (totalFocusTime (stats s)) (js_round (js_div60 (timerDuration s))) \<and>
          contributionData (stats s') = contributionData (incrementPomodoros today (stats s)) \<and>
          isBreakTime s' = takeBreak \<and> focusModeActive s' = takeBreak \<and>
          timerInterval s' = takeBreak"
  using assms
  by (simp add: tick_def countdown_def timerComplete_def Let_def cleanupFocusMode_def
        startBreak_def startCountdown_def addFocusTime_def incrementPomodoros_def)

lemma work_session_25_not_granted:
  assumes "find (\<lambda>t. task_id t = taskId) (tasks s) = Some t" and "\<not> isBreakTime s"
    and "\<not> timerInterval s"
  shows "ticks 1499 today False takeBreak (startFocusMode taskId (Some ''25'') s)
           = Inr ([], (startFocusMode taskId (Some ''25'') s)\<lparr>timeRemaining := Fin 1\<rparr>)"
    and "\<exists>s'. ticks 1500 today False takeBreak (startFocusMode taskId (Some ''25'') s)
           = Inr ([OfferBreak (if (pomodoroCount s + 1) mod 4 = 0 then 15 else 5)], s') \<and>
          pomodoroCount s' = pomodoroCount s + 1 \<and>
          pomodorosToday s' = pomodorosToday s + 1 \<and>
          totalFocusTime (stats s') = js_add (totalFocusTime (stats s)) (Fin 25) \<and>
          contributionData (stats s') = contributionData (incrementPomodoros today (stats s))"
proof -
  let ?s0 = "startFocusMode taskId (Some ''25'') s"
  let ?s1 = "?s0\<lparr>timeRemaining := Fin 1\<rparr>"
  have s0: "?s0 = s\<lparr>currentTask := Some t, timerDuration := Fin 1500,
             timeRemaining := Fin 1500, timerPaused := False, focusModeActive := True,
             timerInterval := True\<rparr>"
    using assms(1) by (rule startFocusMode_25)
  have "ticks 1499 today False takeBreak ?s0
          = Inr ([], ?s0\<lparr>timeRemaining := Fin (1500 - of_nat 1499)\<rparr>)"
    by (rule ticks_running) (simp_all add: s0)
  then show run: "ticks 1499 today False takeBreak ?s0 = Inr ([], ?s1)"
    by simp
  have "\<exists>s'. tick today False takeBreak ?s1 =
             Inr (Some (OfferBreak (if (pomodoroCount ?s1 + 1) mod 4 = 0 then 15 else 5)), s') \<and>
          pomodoroCount s' = pomodoroCount ?s1 + 1 \<and>
          pomodorosToday s' = pomodorosToday ?s1 + 1 \<and>
          totalFocusTime (stats s')
            = js_add (totalFocusTime (stats ?s1)) (js_round (js_div60 (timerDuration ?s1))) \<and>
          contributionData (stats s') = contributionData (incrementPomodoros today (stats ?s1)) \<and>
          isBreakTime s' = takeBreak \<and> focusModeActive s' = takeBreak \<and>
          timerInterval s' = takeBreak"
    by (rule final_tick_not_granted) (simp_all add: s0 assms(2))
  then obtain s' where last: "tick today False takeBreak ?s1 =
             Inr (Some (OfferBreak (if (pomodoroCount ?s1 + 1) mod 4 = 0 then 15 else 5)), s')"
    and s': "pomodoroCount s' = pomodoroCount ?s1 + 1"
          "pomodorosToday s' = pomodorosToday ?s1 + 1"
          "totalFocusTime (stats s')
            = js_add (totalFocusTime (stats ?s1)) (js_round (js_div60 (timerDuration ?s1)))"
          "contributionData (stats s') = contributionData (incrementPomodoros today (stats ?s1))"
    by blast
  have "ticks (Suc 1499) today False takeBreak ?s0
          = Inr ([OfferBreak (if (pomodoroCount ?s1 + 1) mod 4 = 0 then 15 else 5)], s')"
    using run last by (rule ticks_then_report)
  moreover have "pomodoroCount ?s1 = pomodoroCount s" "pomodorosToday ?s1 = pomodorosToday s"
    "stats ?s1 = stats s" "js_round (js_div60 (timerDuration ?s1)) = Fin 25"
    using session_minutes_25 by (simp_all add: s0)
  ultimately show "\<exists>s'. ticks 1500 today False takeBreak ?s0
           = Inr ([OfferBreak (if (pomodoroCount s + 1) mod 4 = 0 then 15 else 5)], s') \<and>
          pomodoroCount s' = pomodoroCount s + 1 \<and>
          pomodorosToday s' = pomodorosToday s + 1 \<and>
          totalFocusTime (stats s') = js_add (totalFocusTime (stats s)) (Fin 25) \<and>
          contributionData (stats s') = contributionData (incrementPomodoros today (stats s))"
    using s' by (intro exI[of _ s']) simp
qed

text \<open>
  C9, on the code. A session of 25 minutes keeps running for 1499 ticks. When
  notifications are granted, the 1500th tick counts the pomodoro, adds the 25 minutes
  and cleans the timer up, and then reads the text of the task that the cleanup has just
  set to \<open>null\<close>: a TypeError is thrown and no break is offered.
\<close>

theorem work_session_25_granted:
  "timerDuration session_25 = Fin 1500 \<and> timeRemaining session_25 = Fin 1500 \<and>
   ticks 1499 0 True True session_25 = Inr ([], session_25\<lparr>timeRemaining := Fin 1\<rparr>) \<and>
   (case ticks 1500 0 True True session_25 of
      Inl (Thrown e s) \<Rightarrow>
        e = TypeError \<and> pomodoroCount s = 1 \<and> totalFocusTime (stats s) = Fin 25 \<and>
        \<not> focusModeActive s \<and> \<not> timerInterval s \<and> currentTask s = None
    | _ \<Rightarrow> False)"
proof -
  let ?s1 = "session_25\<lparr>timeRemaining := Fin 1\<rparr>"
  have s0: "session_25 = one_task\<lparr>currentTask := Some \<lparr>task_id = ''1000'', task_text = ''first'',
               completed = False, createdAt = 1000, dueDate = None, dueTime = None,
               location = None\<rparr>,
             timerDuration := Fin 1500, timeRemaining := Fin 1500, timerPaused := False,
             focusModeActive := True, timerInterval := True\<rparr>"
    unfolding session_25_def using one_task_find by (rule startFocusMode_25)
  have idle: "\<not> isBreakTime one_task" "pomodoroCount one_task = 0"
    "totalFocusTime (stats one_task) = Fin 0"
    by (simp_all add: example_defs)
  have start: "timerDuration session_25 = Fin 1500" "timeRemaining session_25 = Fin 1500"
    by (simp_all add: s0)
  have "ticks 1499 0 True True session_25
          = Inr ([], session_25\<lparr>timeRemaining := Fin (1500 - of_nat 1499)\<rparr>)"
    by (rule ticks_running) (simp_all add: s0)
  then have run: "ticks 1499 0 True True session_25 = Inr ([], ?s1)"
    by simp
  have "\<exists>s'. tick 0 True True ?s1 = Inl (Thrown TypeError s') \<and>
          pomodoroCount s' = pomodoroCount ?s1 + 1 \<and>
          pomodorosToday s' = pomodorosToday ?s1 + 1 \<and>
          totalFocusTime (stats s')
            = js_add (totalFocusTime (stats ?s1)) (js_round (js_div60 (timerDuration ?s1))) \<and>
          contributionData (stats s') = contributionData (incrementPomodoros 0 (stats ?s1)) \<and>
          \<not> focusModeActive s' \<and> \<not> timerInterval s' \<and> currentTask s' = None"
    by (rule final_tick_granted) (simp_all add: s0 idle)
  then obtain s' where last: "tick 0 True True ?s1 = Inl (Thrown TypeError s')"
    and s': "pomodoroCount s' = pomodoroCount ?s1 + 1"
      "totalFocusTime (stats s')
         = js_add (totalFocusTime (stats ?s1)) (js_round (js_div60 (timerDuration ?s1)))"
      "\<not> focusModeActive s'" "\<not> timerInterval s'" "currentTask s' = None"
    by blast
  have before: "pomodoroCount ?s1 = 0" "totalFocusTime (stats ?s1) = Fin 0"
    "js_round (js_div60 (timerDuration ?s1)) = Fin 25"
    using session_minutes_25 by (simp_all add: s0 idle)
  have "ticks (Suc 1499) 0 True True session_25 = Inl (Thrown TypeError s')"
    using run last by (rule ticks_then_error)
  then have thrown: "ticks 1500 0 True True session_25 = Inl (Thrown TypeError s')"
    by simp
  show ?thesis
    unfolding thrown using start run s' before by simp
qed

end
